theory Spec2Isabelle
  imports Complex_Main
begin

section \<open>Strings\<close>

text \<open>
  Strings are lists of characters. The source only ever classifies characters by the
  ASCII classes \<open>[a-zA-Z0-9]\<close>, \<open>_\<close>, \<open>/\<close>, \<open>{\<close> and \<open>}\<close>, and changes case
  with \<open>toLowerCase\<close> / \<open>toUpperCase\<close>, which are modelled on the ASCII letters
  (every other character is left as it is).
\<close>

definition lowerLetters :: string where
  "lowerLetters = ''abcdefghijklmnopqrstuvwxyz''"

definition upperLetters :: string where
  "upperLetters = ''ABCDEFGHIJKLMNOPQRSTUVWXYZ''"

definition digitChars :: string where
  "digitChars = ''0123456789''"

text \<open>The character class \<open>[a-zA-Z0-9]\<close>.\<close>

definition isAlnum :: "char \<Rightarrow> bool" where
  "isAlnum c = (c \<in> set lowerLetters \<or> c \<in> set upperLetters \<or> c \<in> set digitChars)"

definition toLowerChar :: "char \<Rightarrow> char" where
  "toLowerChar c = (case map_of (zip upperLetters lowerLetters) c of Some d \<Rightarrow> d | None \<Rightarrow> c)"

definition toUpperChar :: "char \<Rightarrow> char" where
  "toUpperChar c = (case map_of (zip lowerLetters upperLetters) c of Some d \<Rightarrow> d | None \<Rightarrow> c)"

definition toLowerCase :: "string \<Rightarrow> string" where
  "toLowerCase s = map toLowerChar s"

definition toUpperCase :: "string \<Rightarrow> string" where
  "toUpperCase s = map toUpperChar s"

text \<open>\<open>s.replace(/[^a-zA-Z0-9]/g, '_')\<close>\<close>

definition replaceNonAlnum :: "string \<Rightarrow> string" where
  "replaceNonAlnum s = map (\<lambda>c. if isAlnum c then c else CHR ''_'') s"

text \<open>\<open>s.replace(/_+/g, '_')\<close>: every maximal run of underscores becomes one underscore.\<close>

function collapseUnderscores :: "string \<Rightarrow> string" where
  "collapseUnderscores [] = []"
| "collapseUnderscores (c # cs) =
     (if c = CHR ''_''
      then CHR ''_'' # collapseUnderscores (dropWhile (\<lambda>d. d = CHR ''_'') cs)
      else c # collapseUnderscores cs)"
  by pat_completeness auto
termination
  by (relation "measure length") (auto simp: le_imp_less_Suc length_dropWhile_le)

text \<open>
  \<open>s.replace(/^_|_$/g, '')\<close>: one underscore at the start is removed, and one
  underscore at the end of what is left.
\<close>

definition stripUnderscoreEnds :: "string \<Rightarrow> string" where
  "stripUnderscoreEnds s =
     (let s1 = (case s of [] \<Rightarrow> [] | c # r \<Rightarrow> if c = CHR ''_'' then r else s)
      in if s1 \<noteq> [] \<and> last s1 = CHR ''_'' then butlast s1 else s1)"

text \<open>\<open>s.replace(/[{}]/g, '')\<close>\<close>

definition removeBraces :: "string \<Rightarrow> string" where
  "removeBraces s = filter (\<lambda>c. c \<noteq> CHR ''{'' \<and> c \<noteq> CHR ''}'') s"

text \<open>\<open>s.split(d)\<close> for a one-character separator; the result is never empty.\<close>

fun splitOn :: "char \<Rightarrow> string \<Rightarrow> string list" where
  "splitOn d [] = [[]]"
| "splitOn d (c # cs) =
     (if c = d then [] # splitOn d cs
      else (case splitOn d cs of [] \<Rightarrow> [[c]] | w # ws \<Rightarrow> (c # w) # ws))"

text \<open>\<open>xs.join(sep)\<close>\<close>

fun joinWith :: "string \<Rightarrow> string list \<Rightarrow> string" where
  "joinWith sep [] = []"
| "joinWith sep [x] = x"
| "joinWith sep (x # y # ys) = x @ sep @ joinWith sep (y # ys)"

text \<open>Decimal rendering of the integers that the source puts into template strings.\<close>

fun showNat :: "nat \<Rightarrow> string" where
  "showNat n = (if n < 10 then [digitChars ! n] else showNat (n div 10) @ [digitChars ! (n mod 10)])"

declare showNat.simps [simp del]

definition showInt :: "int \<Rightarrow> string" where
  "showInt i = (if i < 0 then CHR ''-'' # showNat (nat (- i)) else showNat (nat i))"

text \<open>
  The source writes \<open>\\n\<close> inside its template strings, which is a backslash followed
  by the letter n, not a line break.
\<close>

definition bsn :: string where
  "bsn = [CHR 0x5C, CHR ''n'']"

section \<open>JavaScript values\<close>

text \<open>
  Values of type \<open>any\<close>: parsed JSON and \<open>undefined\<close>. An object is the list of its own
  properties in the order \<open>Object.keys\<close> gives them, each key once. A number is given by
  its value and by the text that \<open>String\<close> prints for it (\<open>42\<close>, \<open>0.5\<close>, \<open>1e+21\<close>); the
  number-to-text conversion of the engine is not part of the program.
\<close>

datatype jsval =
    JUndefined
  | JNull
  | JBool bool
  | JNum rat string
  | JStr string
  | JArr "jsval list"
  | JObj "(string \<times> jsval) list"

text \<open>
  What the program can throw: the \<open>Error\<close> it creates itself, with its message, and the
  \<open>TypeError\<close> of the engine.
\<close>

datatype js_error = Error string | TypeError

text \<open>Truthiness, as \<open>if (v)\<close>, \<open>!v\<close> and \<open>v || w\<close> test it.\<close>

fun truthy :: "jsval \<Rightarrow> bool" where
  "truthy JUndefined = False"
| "truthy JNull = False"
| "truthy (JBool b) = b"
| "truthy (JNum n t) = (n \<noteq> 0)"
| "truthy (JStr s) = (s \<noteq> [])"
| "truthy (JArr xs) = True"
| "truthy (JObj kvs) = True"

text \<open>A string or absent string under \<open>s || d\<close>.\<close>

definition strOr :: "string option \<Rightarrow> string \<Rightarrow> string" where
  "strOr s d = (case s of None \<Rightarrow> d | Some t \<Rightarrow> if t = [] then d else t)"

text \<open>
  Reading a property that is not an array index or \<open>length\<close> and not a property of
  \<open>Object.prototype\<close>: \<open>v[k]\<close> and \<open>v?.k\<close> on a value that is neither \<open>null\<close> nor
  \<open>undefined\<close>.
\<close>

fun getProp :: "jsval \<Rightarrow> string \<Rightarrow> jsval" where
  "getProp (JObj kvs) k = (case map_of kvs k of None \<Rightarrow> JUndefined | Some v \<Rightarrow> v)"
| "getProp v k = JUndefined"

text \<open>
  \<open>String(v)\<close> and \<open>`${v}`\<close>. An object is converted by its \<open>toString\<close>: the one of
  \<open>Object.prototype\<close> prints \<open>[object Object]\<close>, and an own property \<open>toString\<close>, which
  in parsed JSON is never a function, makes the conversion throw a \<open>TypeError\<close>. An
  array is converted by joining the conversions of its elements.
\<close>

fun toString :: "jsval \<Rightarrow> js_error + string"
  and elemStrings :: "jsval list \<Rightarrow> js_error + string list" where
  "toString JUndefined = Inr ''undefined''"
| "toString JNull = Inr ''null''"
| "toString (JBool b) = Inr (if b then ''true'' else ''false'')"
| "toString (JNum n t) = Inr t"
| "toString (JStr s) = Inr s"
| "toString (JArr xs) =
     (case elemStrings xs of Inl e \<Rightarrow> Inl e | Inr ss \<Rightarrow> Inr (joinWith '','' ss))"
| "toString (JObj kvs) =
     (if ''toString'' \<in> fst ` set kvs then Inl TypeError else Inr ''[object Object]'')"
| "elemStrings [] = Inr []"
| "elemStrings (JUndefined # xs) =
     (case elemStrings xs of Inl e \<Rightarrow> Inl e | Inr ss \<Rightarrow> Inr ([] # ss))"
| "elemStrings (JNull # xs) =
     (case elemStrings xs of Inl e \<Rightarrow> Inl e | Inr ss \<Rightarrow> Inr ([] # ss))"
| "elemStrings (x # xs) =
     (case toString x of
        Inl e \<Rightarrow> Inl e
      | Inr s \<Rightarrow> (case elemStrings xs of Inl e \<Rightarrow> Inl e | Inr ss \<Rightarrow> Inr (s # ss)))"

text \<open>
  \<open>obj[key] = value\<close> on a plain object that the program builds, where the value is
  an object: the key \<open>__proto__\<close> is the prototype setter of \<open>Object.prototype\<close>, so
  that assignment changes the prototype and creates no property.
\<close>

definition assign :: "string \<Rightarrow> 'v \<Rightarrow> (string \<times> 'v) list \<Rightarrow> (string \<times> 'v) list" where
  "assign k v kvs =
     (if k = ''__proto__'' then kvs
      else if k \<in> fst ` set kvs then map (\<lambda>(k', v'). if k' = k then (k', v) else (k', v')) kvs
      else kvs @ [(k, v)])"

text \<open>The same assignment when only the set of keys and their values matter.\<close>

definition assignKey :: "string \<Rightarrow> 'v \<Rightarrow> (string \<rightharpoonup> 'v) \<Rightarrow> (string \<rightharpoonup> 'v)" where
  "assignKey k v m = (if k = ''__proto__'' then m else m(k \<mapsto> v))"

section \<open>Data model (swagger-parser.ts)\<close>

record SwaggerParameter =
  p_name :: string
  p_in :: string
  p_description :: "string option"
  p_required :: bool
  p_schema :: jsval
  p_example :: jsval

record SwaggerRequestBody =
  rb_description :: "string option"
  rb_required :: bool
  rb_content :: "(string \<times> jsval) list"

record SwaggerResponse =
  rs_description :: "string option"
  rs_content :: "(string \<times> jsval) list option"

record SwaggerEndpoint =
  ep_path :: string
  ep_method :: string
  ep_operationId :: string
  ep_summary :: string
  ep_description :: string
  ep_parameters :: "SwaggerParameter list"
  ep_tags :: "string list"
  ep_requestBody :: "SwaggerRequestBody option"
  ep_responses :: "(string \<times> SwaggerResponse) list"

text \<open>One entry of \<open>inputSchema.properties\<close>.\<close>

record PropertySchema =
  ps_type :: jsval
  ps_description :: string

text \<open>
  The object returned by \<open>generateInputSchema\<close>. \<open>properties\<close> is a plain object used
  as a dictionary from parameter names to their schemas, given here by its own keys and
  their values; \<open>required\<close> is \<open>undefined\<close> (\<open>None\<close>) or a list of names.
\<close>

record InputSchema =
  is_type :: string
  is_properties :: "string \<rightharpoonup> PropertySchema"
  is_required :: "string list option"

record ParsedOperation =
  toolName :: string
  description :: string
  inputSchema :: InputSchema
  endpoint :: SwaggerEndpoint

section \<open>The OpenAPI document, as the parser reads it\<close>

text \<open>
  The document is typed by \<open>OpenAPIV3.Document\<close>. The fields the parser reads are
  optional there, and parameters, request bodies and responses may be \<open>$ref\<close>
  reference objects.
\<close>

record ParameterObject =
  po_name :: string
  po_in :: string
  po_description :: "string option"
  po_required :: "bool option"
  po_schema :: jsval
  po_example :: jsval

datatype param_or_ref = ParamRef string | ParamObj ParameterObject

record RequestBodyObject =
  rbo_description :: "string option"
  rbo_required :: "bool option"
  rbo_content :: "(string \<times> jsval) list option"

datatype body_or_ref = BodyRef string | BodyObj RequestBodyObject

record ResponseObject =
  ro_description :: "string option"
  ro_content :: "(string \<times> jsval) list option"

text \<open>
  An entry of the \<open>responses\<close> object: an object with a \<open>$ref\<close> key, any other object,
  or a value that is not an object (the primitive value of an \<open>x-\<close> extension field,
  or \<open>null\<close>), on which the test \<open>'$ref' in response\<close> throws a \<open>TypeError\<close>.
\<close>

datatype response_or_ref = ResponseRef string | ResponseObj ResponseObject | ResponsePrimitive

record OperationObject =
  op_operationId :: "string option"
  op_summary :: "string option"
  op_description :: "string option"
  op_parameters :: "param_or_ref list option"
  op_tags :: "string list option"
  op_requestBody :: "body_or_ref option"
  op_responses :: "(string \<times> response_or_ref) list option"

text \<open>
  The value under one key of a path item, as \<open>getAllEndpoints\<close> tells values apart:
  \<open>Primitive\<close> is a value that fails \<open>operation && typeof operation === 'object'\<close>
  (a string such as \<open>summary\<close>, a number, a boolean, \<open>null\<close>); \<open>ArrayValue\<close> is an
  array (such as \<open>servers\<close> or \<open>parameters\<close>), whose \<open>typeof\<close> is \<open>'object'\<close>;
  \<open>OperationValue\<close> is any other object, which the parser casts to an operation.
\<close>

datatype entry_value = Primitive | ArrayValue | OperationValue OperationObject

text \<open>
  A path item is an object (the list of its entries) or a value that fails
  \<open>pathItem && typeof pathItem === 'object'\<close>.
\<close>

datatype path_item = NotAnObject | PathItem "(string \<times> entry_value) list"

record Document =
  doc_paths :: "(string \<times> path_item) list option"

section \<open>Endpoint Enumerator: \<open>SwaggerParser.getAllEndpoints\<close>\<close>

text \<open>An array read as an operation has none of the operation's fields.\<close>

definition emptyOperation :: OperationObject where
  "emptyOperation = \<lparr>op_operationId = None, op_summary = None, op_description = None,
     op_parameters = None, op_tags = None, op_requestBody = None, op_responses = None\<rparr>"

fun parseParameters :: "param_or_ref list \<Rightarrow> SwaggerParameter list" where
  "parseParameters [] = []"
| "parseParameters (ParamRef r # ps) = parseParameters ps"
| "parseParameters (ParamObj p # ps) =
     \<lparr>p_name = po_name p, p_in = po_in p, p_description = po_description p,
      p_required = (case po_required p of None \<Rightarrow> False | Some b \<Rightarrow> b),
      p_schema = po_schema p, p_example = po_example p\<rparr> # parseParameters ps"

fun parseRequestBody :: "body_or_ref option \<Rightarrow> SwaggerRequestBody option" where
  "parseRequestBody None = None"
| "parseRequestBody (Some (BodyRef r)) = None"
| "parseRequestBody (Some (BodyObj b)) =
     Some \<lparr>rb_description = rbo_description b,
           rb_required = (case rbo_required b of None \<Rightarrow> False | Some r \<Rightarrow> r),
           rb_content = (case rbo_content b of None \<Rightarrow> [] | Some c \<Rightarrow> c)\<rparr>"

text \<open>
  \<open>parseResponses\<close>: the loop over \<open>Object.entries(responses)\<close>, with the object
  \<open>parsed\<close> built so far. The test \<open>'$ref' in response\<close> throws on an entry that is
  not an object.
\<close>

fun parseResponses :: "(string \<times> response_or_ref) list \<Rightarrow> (string \<times> SwaggerResponse) list
    \<Rightarrow> js_error + (string \<times> SwaggerResponse) list" where
  "parseResponses [] parsed = Inr parsed"
| "parseResponses ((code, ResponsePrimitive) # rs) parsed = Inl TypeError"
| "parseResponses ((code, ResponseRef r) # rs) parsed = parseResponses rs parsed"
| "parseResponses ((code, ResponseObj r) # rs) parsed =
     parseResponses rs
       (assign code \<lparr>rs_description = ro_description r, rs_content = ro_content r\<rparr> parsed)"

definition responsesOf :: "OperationObject \<Rightarrow> (string \<times> response_or_ref) list" where
  "responsesOf op = (case op_responses op of None \<Rightarrow> [] | Some rs \<Rightarrow> rs)"

text \<open>
  The object that \<open>getAllEndpoints\<close> pushes for one operation. Its last field is what
  \<open>parseResponses\<close> returned; when \<open>parseResponses\<close> throws, no object is built
  (see \<open>itemEndpoints\<close>).
\<close>

definition makeEndpoint :: "string \<Rightarrow> string \<Rightarrow> OperationObject \<Rightarrow> SwaggerEndpoint" where
  "makeEndpoint path method op =
     \<lparr>ep_path = path,
      ep_method = toUpperCase method,
      ep_operationId = strOr (op_operationId op) (method @ ''_'' @ replaceNonAlnum path),
      ep_summary = strOr (op_summary op) [],
      ep_description = strOr (op_description op) [],
      ep_parameters = parseParameters (case op_parameters op of None \<Rightarrow> [] | Some ps \<Rightarrow> ps),
      ep_tags = (case op_tags op of None \<Rightarrow> [] | Some ts \<Rightarrow> ts),
      ep_requestBody = parseRequestBody (op_requestBody op),
      ep_responses = (case parseResponses (responsesOf op) [] of Inl e \<Rightarrow> [] | Inr parsed \<Rightarrow> parsed)\<rparr>"

text \<open>
  One turn of the inner loop for a value that passed the object test: the endpoint is
  pushed unless evaluating its fields throws.
\<close>

definition pushEndpoint :: "string \<Rightarrow> string \<Rightarrow> OperationObject \<Rightarrow> js_error + SwaggerEndpoint" where
  "pushEndpoint path method op =
     (case parseResponses (responsesOf op) [] of
        Inl e \<Rightarrow> Inl e
      | Inr parsed \<Rightarrow> Inr (makeEndpoint path method op))"

text \<open>The inner loop, over the entries of one path item.\<close>

fun itemEndpoints :: "string \<Rightarrow> (string \<times> entry_value) list \<Rightarrow> js_error + SwaggerEndpoint list" where
  "itemEndpoints path [] = Inr []"
| "itemEndpoints path ((method, Primitive) # es) = itemEndpoints path es"
| "itemEndpoints path ((method, ArrayValue) # es) =
     (if method = ''parameters'' then itemEndpoints path es
      else (case pushEndpoint path method emptyOperation of
              Inl e \<Rightarrow> Inl e
            | Inr ep \<Rightarrow> (case itemEndpoints path es of Inl e \<Rightarrow> Inl e | Inr eps \<Rightarrow> Inr (ep # eps))))"
| "itemEndpoints path ((method, OperationValue op) # es) =
     (if method = ''parameters'' then itemEndpoints path es
      else (case pushEndpoint path method op of
              Inl e \<Rightarrow> Inl e
            | Inr ep \<Rightarrow> (case itemEndpoints path es of Inl e \<Rightarrow> Inl e | Inr eps \<Rightarrow> Inr (ep # eps))))"

text \<open>The outer loop, over the entries of \<open>paths\<close>.\<close>

fun pathsEndpoints :: "(string \<times> path_item) list \<Rightarrow> js_error + SwaggerEndpoint list" where
  "pathsEndpoints [] = Inr []"
| "pathsEndpoints ((path, NotAnObject) # ps) = pathsEndpoints ps"
| "pathsEndpoints ((path, PathItem es) # ps) =
     (case itemEndpoints path es of
        Inl e \<Rightarrow> Inl e
      | Inr eps \<Rightarrow> (case pathsEndpoints ps of Inl e \<Rightarrow> Inl e | Inr rest \<Rightarrow> Inr (eps @ rest)))"

definition getAllEndpoints :: "Document \<Rightarrow> js_error + SwaggerEndpoint list" where
  "getAllEndpoints doc = pathsEndpoints (case doc_paths doc of None \<Rightarrow> [] | Some ps \<Rightarrow> ps)"

section \<open>Tool Synthesizer: \<open>SwaggerParser.generateMCPTools\<close>\<close>

text \<open>The last four steps of \<open>generateToolName\<close>, applied to the chosen name.\<close>

definition normalizeName :: "string \<Rightarrow> string" where
  "normalizeName name =
     toLowerCase (stripUnderscoreEnds (collapseUnderscores (replaceNonAlnum name)))"

definition generateToolName :: "SwaggerEndpoint \<Rightarrow> string" where
  "generateToolName ep =
     (let name =
        (if ep_operationId ep = [] then
           (let pathParts = filter (\<lambda>p. p \<noteq> [] \<and> \<not> (hd p = CHR ''{''))
                              (splitOn CHR ''/'' (ep_path ep));
                resourceName = (if pathParts = [] then ''resource'' else last pathParts)
            in toLowerCase (ep_method ep) @ ''_'' @ resourceName)
         else ep_operationId ep)
      in normalizeName name)"

definition generateToolDescription :: "SwaggerEndpoint \<Rightarrow> string" where
  "generateToolDescription ep =
     (let d0 = (if ep_summary ep \<noteq> [] then ep_summary ep else ep_description ep);
          d1 = (if d0 = [] then
                  (let popped = removeBraces (last (splitOn CHR ''/'' (ep_path ep)));
                       resourceName = (if popped = [] then ''resource'' else popped)
                   in ep_method ep @ '' '' @ resourceName @ '' from ORO Commerce API'')
                else d0);
          d2 = d1 @ bsn @ bsn @ ''**Endpoint:** '' @ ep_method ep @ '' '' @ ep_path ep
      in if length (ep_tags ep) > 0
         then d2 @ bsn @ ''**Categories:** '' @ joinWith '', '' (ep_tags ep)
         else d2)"

definition convertSwaggerTypeToJsonSchema :: "jsval \<Rightarrow> jsval" where
  "convertSwaggerTypeToJsonSchema schema =
     (if \<not> truthy schema then JStr ''string''
      else if truthy (getProp schema ''type'') then getProp schema ''type''
      else if getProp schema ''format'' = JStr ''int32'' \<or> getProp schema ''format'' = JStr ''int64''
           then JStr ''integer''
      else JStr ''string'')"

text \<open>
  The body of the two parameter loops of \<open>generateInputSchema\<close>, on the pair of
  \<open>properties\<close> and \<open>required\<close>.
\<close>

definition addParameter :: "SwaggerParameter \<Rightarrow> (string \<rightharpoonup> PropertySchema) \<times> string list
    \<Rightarrow> (string \<rightharpoonup> PropertySchema) \<times> string list" where
  "addParameter param acc =
     (let required = (if p_required param then snd acc @ [p_name param] else snd acc);
          properties = assignKey (p_name param)
             \<lparr>ps_type = convertSwaggerTypeToJsonSchema (p_schema param),
              ps_description = strOr (p_description param) (p_name param @ '' parameter'')\<rparr>
             (fst acc)
      in (properties, required))"

fun addParameters :: "SwaggerParameter list \<Rightarrow> (string \<rightharpoonup> PropertySchema) \<times> string list
    \<Rightarrow> (string \<rightharpoonup> PropertySchema) \<times> string list" where
  "addParameters [] acc = acc"
| "addParameters (param # ps) acc = addParameters ps (addParameter param acc)"

definition addRequestBody :: "SwaggerRequestBody option \<Rightarrow> (string \<rightharpoonup> PropertySchema) \<times> string list
    \<Rightarrow> (string \<rightharpoonup> PropertySchema) \<times> string list" where
  "addRequestBody body acc =
     (case body of
        None \<Rightarrow> acc
      | Some b \<Rightarrow>
          if rb_required b
          then (assignKey ''requestBody''
                  \<lparr>ps_type = JStr ''object'',
                   ps_description = strOr (rb_description b) ''Request body data''\<rparr>
                  (fst acc),
                snd acc @ [''requestBody''])
          else acc)"

definition generateInputSchema :: "SwaggerEndpoint \<Rightarrow> InputSchema" where
  "generateInputSchema ep =
     (let acc1 = addParameters (filter (\<lambda>p. p_in p = ''path'') (ep_parameters ep)) (Map.empty, []);
          acc2 = addParameters (filter (\<lambda>p. p_in p = ''query'') (ep_parameters ep)) acc1;
          acc3 = addRequestBody (ep_requestBody ep) acc2
      in \<lparr>is_type = ''object'',
          is_properties = fst acc3,
          is_required = (if length (snd acc3) > 0 then Some (snd acc3) else None)\<rparr>)"

definition shouldSkipEndpoint :: "SwaggerEndpoint \<Rightarrow> bool" where
  "shouldSkipEndpoint ep =
     (if ep_method ep = ''OPTIONS'' then True
      else if ep_method ep = ''HEAD'' then True
      else False)"

fun generateMCPTools :: "SwaggerEndpoint list \<Rightarrow> ParsedOperation list" where
  "generateMCPTools [] = []"
| "generateMCPTools (ep # eps) =
     (if shouldSkipEndpoint ep then generateMCPTools eps
      else \<lparr>toolName = generateToolName ep,
            description = generateToolDescription ep,
            inputSchema = generateInputSchema ep,
            endpoint = ep\<rparr> # generateMCPTools eps)"

text \<open>
  The constructor of \<open>DynamicOroClient\<close> stores
  \<open>generateMCPTools(getAllEndpoints())\<close> in \<open>availableTools\<close>; it throws what
  \<open>getAllEndpoints\<close> throws.
\<close>

definition availableTools :: "Document \<Rightarrow> js_error + ParsedOperation list" where
  "availableTools doc =
     (case getAllEndpoints doc of Inl e \<Rightarrow> Inl e | Inr eps \<Rightarrow> Inr (generateMCPTools eps))"

section \<open>Dispatcher (dynamic-client.ts)\<close>

text \<open>
  The argument map arrives from the tool call as parsed JSON, so a path parameter can
  be any value, whatever the declared type \<open>string | number\<close>.
\<close>

record DynamicRequestOptions =
  pathParams :: "(string \<times> jsval) list option"
  queryParams :: "(string \<times> jsval) list option"
  requestBody :: jsval
  headers :: "(string \<times> string) list option"

record EndpointEcho =
  e_path :: string
  e_method :: string
  e_operationId :: string

record DynamicResponse =
  r_success :: bool
  r_data :: jsval
  r_error :: "string option"
  r_statusCode :: "int option"
  r_endpoint :: EndpointEcho

text \<open>The configuration object handed to \<open>axiosClient.request\<close>.\<close>

record RequestConfig =
  c_method :: string
  c_url :: string
  c_headers :: "(string \<times> string) list"
  c_params :: "(string \<times> jsval) list option"
  c_data :: "jsval option"

text \<open>
  What the transport gives back: a response, or the value it rejects with. That value
  is \<open>null\<close>/\<open>undefined\<close>, or a value with properties, of which the code reads
  \<open>response\<close> (with \<open>status\<close> and \<open>data\<close>) and \<open>message\<close>; each may be missing.
\<close>

record HttpResponse =
  h_data :: jsval
  h_status :: int

record ErrorResponse =
  er_status :: "int option"
  er_data :: jsval

record TransportError =
  te_response :: "ErrorResponse option"
  te_message :: jsval

datatype rejection = Nullish | Thrown TransportError

type_synonym transport = "RequestConfig \<Rightarrow> rejection + HttpResponse"

text \<open>
  \<open>String.prototype.replace\<close> with a string pattern replaces the first occurrence
  only, and expands \<open>$$\<close>, \<open>$&\<close>, \<open>$`\<close> and \<open>$'\<close> in the replacement (there are no
  capture groups, so every other \<open>$\<close> stands for itself).
\<close>

fun getSubstitution :: "string \<Rightarrow> string \<Rightarrow> string \<Rightarrow> string \<Rightarrow> string" where
  "getSubstitution matched before after [] = []"
| "getSubstitution matched before after [c] = [c]"
| "getSubstitution matched before after (c # d # r) =
     (if c = CHR ''$'' \<and> d = CHR ''$'' then CHR ''$'' # getSubstitution matched before after r
      else if c = CHR ''$'' \<and> d = CHR ''&'' then matched @ getSubstitution matched before after r
      else if c = CHR ''$'' \<and> d = CHR 0x60 then before @ getSubstitution matched before after r
      else if c = CHR ''$'' \<and> d = CHR 0x27 then after @ getSubstitution matched before after r
      else c # getSubstitution matched before after (d # r))"

fun replaceFrom :: "string \<Rightarrow> string \<Rightarrow> string \<Rightarrow> string \<Rightarrow> string" where
  "replaceFrom pat rep before [] =
     (if pat = [] then before @ getSubstitution pat before [] rep else before)"
| "replaceFrom pat rep before (c # cs) =
     (if take (length pat) (c # cs) = pat
      then before @ getSubstitution pat before (drop (length pat) (c # cs)) rep
             @ drop (length pat) (c # cs)
      else replaceFrom pat rep (before @ [c]) cs)"

definition jsReplace :: "string \<Rightarrow> string \<Rightarrow> string \<Rightarrow> string" where
  "jsReplace s pat rep = replaceFrom pat rep [] s"

text \<open>
  The loop over \<open>Object.entries(options.pathParams)\<close>; \<open>String(value)\<close> can throw.
\<close>

fun substitutePathParams :: "(string \<times> jsval) list \<Rightarrow> string \<Rightarrow> js_error + string" where
  "substitutePathParams [] url = Inr url"
| "substitutePathParams ((key, val) # ps) url =
     (case toString val of
        Inl e \<Rightarrow> Inl e
      | Inr text \<Rightarrow> substitutePathParams ps (jsReplace url (''{'' @ key @ ''}'') text))"

definition buildUrl :: "SwaggerEndpoint \<Rightarrow> DynamicRequestOptions \<Rightarrow> js_error + string" where
  "buildUrl ep options =
     (case pathParams options of
        None \<Rightarrow> Inr (ep_path ep)
      | Some ps \<Rightarrow> substitutePathParams ps (ep_path ep))"

definition buildConfig :: "SwaggerEndpoint \<Rightarrow> DynamicRequestOptions \<Rightarrow> js_error + RequestConfig" where
  "buildConfig ep options =
     (case buildUrl ep options of
        Inl e \<Rightarrow> Inl e
      | Inr url \<Rightarrow>
          Inr \<lparr>c_method = toLowerCase (ep_method ep),
               c_url = url,
               c_headers = (case headers options of None \<Rightarrow> [] | Some h \<Rightarrow> h),
               c_params = (case queryParams options of
                             None \<Rightarrow> None
                           | Some q \<Rightarrow> if length q > 0 then Some q else None),
               c_data = (if truthy (requestBody options)
                            \<and> ep_method ep \<in> set [''POST'', ''PUT'', ''PATCH'']
                         then Some (requestBody options) else None)\<rparr>)"

definition echo :: "SwaggerEndpoint \<Rightarrow> EndpointEcho" where
  "echo ep = \<lparr>e_path = ep_path ep, e_method = ep_method ep, e_operationId = ep_operationId ep\<rparr>"

text \<open>\<open>error.response?.data?.message || error.message || 'Unknown error'\<close>\<close>

definition errorMessage :: "TransportError \<Rightarrow> jsval" where
  "errorMessage err =
     (let upstream = (case te_response err of
                        None \<Rightarrow> JUndefined
                      | Some r \<Rightarrow> getProp (er_data r) ''message'')
      in if truthy upstream then upstream
         else if truthy (te_message err) then te_message err
         else JStr ''Unknown error'')"

text \<open>
  The \<open>catch\<close> block of \<open>executeEndpoint\<close>. Reading \<open>error.response\<close> throws when
  the caught value is \<open>null\<close> or \<open>undefined\<close>, and the template
  \<open>`API call failed: ${errorMessage}`\<close> throws when the message cannot be converted
  to a string; what the block throws, \<open>executeEndpoint\<close> throws.
\<close>

fun catchError :: "SwaggerEndpoint \<Rightarrow> rejection \<Rightarrow> js_error + DynamicResponse" where
  "catchError ep Nullish = Inl TypeError"
| "catchError ep (Thrown err) =
     (case toString (errorMessage err) of
        Inl e \<Rightarrow> Inl e
      | Inr text \<Rightarrow>
          Inr \<lparr>r_success = False,
               r_data = JUndefined,
               r_error = Some (''API call failed: '' @ text),
               r_statusCode = (case te_response err of None \<Rightarrow> None | Some r \<Rightarrow> er_status r),
               r_endpoint = echo ep\<rparr>)"

text \<open>
  The \<open>TypeError\<close> that \<open>String(value)\<close> throws in the \<open>try\<close> block, as the \<open>catch\<close>
  block sees it: an error without \<open>response\<close>, with the message that Node gives it.
\<close>

definition conversionError :: rejection where
  "conversionError =
     Thrown \<lparr>te_response = None, te_message = JStr ''Cannot convert object to primitive value''\<rparr>"

text \<open>
  \<open>executeEndpoint\<close>: the \<open>try\<close> block builds the request and awaits the transport;
  an exception of the \<open>try\<close> block and a rejection of the transport go to the \<open>catch\<close>
  block.
\<close>

definition executeEndpoint :: "transport \<Rightarrow> SwaggerEndpoint \<Rightarrow> DynamicRequestOptions
    \<Rightarrow> js_error + DynamicResponse" where
  "executeEndpoint request ep options =
     (case buildConfig ep options of
        Inl e \<Rightarrow> catchError ep conversionError
      | Inr config \<Rightarrow>
          (case request config of
             Inr response \<Rightarrow>
               Inr \<lparr>r_success = True,
                    r_data = h_data response,
                    r_error = None,
                    r_statusCode = Some (h_status response),
                    r_endpoint = echo ep\<rparr>
           | Inl rejected \<Rightarrow> catchError ep rejected))"

text \<open>\<open>this.availableTools.find(t => t.toolName === toolName)\<close>\<close>

definition findTool :: "ParsedOperation list \<Rightarrow> string \<Rightarrow> ParsedOperation option" where
  "findTool tools name = List.find (\<lambda>t. toolName t = name) tools"

definition executeTool :: "transport \<Rightarrow> ParsedOperation list \<Rightarrow> string \<Rightarrow> DynamicRequestOptions
    \<Rightarrow> js_error + DynamicResponse" where
  "executeTool request tools name args =
     (case findTool tools name of
        None \<Rightarrow>
          Inr \<lparr>r_success = False,
               r_data = JUndefined,
               r_error = Some (''Tool '' @ [CHR 0x27] @ name @ [CHR 0x27]
                               @ '' not found. Available tools: ''
                               @ joinWith '', '' (map toolName tools)),
               r_statusCode = None,
               r_endpoint = \<lparr>e_path = [], e_method = [], e_operationId = []\<rparr>\<rparr>
      | Some tool \<Rightarrow> executeEndpoint request (endpoint tool) args)"

section \<open>Response Formatter (dynamic-client.ts)\<close>

text \<open>The two marks that open the formatted text, as their UTF-8 bytes.\<close>

definition checkMark :: string where
  "checkMark = [CHR 0xE2, CHR 0x9C, CHR 0x85]"

definition crossMark :: string where
  "crossMark = [CHR 0xE2, CHR 0x9D, CHR 0x8C]"

text \<open>The own enumerable properties of an object or array, as \<open>Object.keys\<close> lists them.\<close>

fun ownEntries :: "jsval \<Rightarrow> (string \<times> jsval) list" where
  "ownEntries (JObj kvs) = kvs"
| "ownEntries (JArr xs) = zip (map showNat [0..<length xs]) xs"
| "ownEntries v = []"

definition keyFields :: "string list" where
  "keyFields = [''id'', ''name'', ''title'', ''sku'', ''email'', ''status'']"

fun isObjectLike :: "jsval \<Rightarrow> bool" where
  "isObjectLike (JObj kvs) = True"
| "isObjectLike (JArr xs) = True"
| "isObjectLike v = False"

text \<open>\<open>xs.map(f)\<close> for an \<open>f\<close> that can throw: the first exception ends the loop.\<close>

fun mapThrowing :: "('a \<Rightarrow> js_error + 'b) \<Rightarrow> 'a list \<Rightarrow> js_error + 'b list" where
  "mapThrowing f [] = Inr []"
| "mapThrowing f (x # xs) =
     (case f x of
        Inl e \<Rightarrow> Inl e
      | Inr y \<Rightarrow> (case mapThrowing f xs of Inl e \<Rightarrow> Inl e | Inr ys \<Rightarrow> Inr (y # ys)))"

text \<open>\<open>`${label}: ${v}`\<close>\<close>

definition labelled :: "string \<Rightarrow> jsval \<Rightarrow> js_error + string" where
  "labelled label v = (case toString v of Inl e \<Rightarrow> Inl e | Inr text \<Rightarrow> Inr (label @ '': '' @ text))"

text \<open>
  \<open>formatItem\<close>. The call \<open>item.hasOwnProperty(field)\<close> finds the method on
  \<open>Object.prototype\<close>, unless the item has an own property of that name: in parsed
  JSON that is not a function, and the call throws a \<open>TypeError\<close>.
\<close>

definition formatItem :: "jsval \<Rightarrow> js_error + string" where
  "formatItem item =
     (if \<not> truthy item \<or> \<not> isObjectLike item then toString item
      else if ''hasOwnProperty'' \<in> fst ` set (ownEntries item) then Inl TypeError
      else
        (case mapThrowing (\<lambda>field. labelled field (getProp item field))
                (filter (\<lambda>field. field \<in> fst ` set (ownEntries item)) keyFields) of
           Inl e \<Rightarrow> Inl e
         | Inr shown \<Rightarrow>
             (let display = joinWith '', '' (take 3 shown)
              in if display \<noteq> [] then Inr display
                 else (case mapThrowing (\<lambda>(key, v). labelled key v) (take 3 (ownEntries item)) of
                         Inl e \<Rightarrow> Inl e
                       | Inr parts \<Rightarrow> Inr (joinWith '', '' parts)))))"

text \<open>\<open>data.slice(0, 3).map((item, index) => `${index + 1}. ${formatItem(item)}`)\<close>\<close>

fun numbered :: "nat \<Rightarrow> jsval list \<Rightarrow> js_error + string list" where
  "numbered index [] = Inr []"
| "numbered index (item # items) =
     (case formatItem item of
        Inl e \<Rightarrow> Inl e
      | Inr text \<Rightarrow>
          (case numbered (index + 1) items of
             Inl e \<Rightarrow> Inl e
           | Inr lines \<Rightarrow> Inr ((showNat (index + 1) @ ''. '' @ text) # lines)))"

text \<open>\<open>response.data?.data || response.data\<close>\<close>

definition payload :: "jsval \<Rightarrow> jsval" where
  "payload d =
     (let inner = (case d of JUndefined \<Rightarrow> JUndefined | JNull \<Rightarrow> JUndefined | _ \<Rightarrow> getProp d ''data'')
      in if truthy inner then inner else d)"

text \<open>The text that a successful result starts with, up to the item count.\<close>

definition successPrefix :: "DynamicResponse \<Rightarrow> string" where
  "successPrefix response =
     checkMark @ '' Success: '' @ e_operationId (r_endpoint response) @ bsn
       @ ''Endpoint: '' @ e_method (r_endpoint response) @ '' '' @ e_path (r_endpoint response) @ bsn
       @ ''Status: ''
       @ (case r_statusCode response of None \<Rightarrow> ''undefined'' | Some c \<Rightarrow> showInt c) @ bsn
       @ ''Items: ''"

definition formatResponse :: "DynamicResponse \<Rightarrow> js_error + string" where
  "formatResponse response =
     (if \<not> r_success response then
        Inr (crossMark @ '' Error: ''
          @ (case r_error response of None \<Rightarrow> ''undefined'' | Some e \<Rightarrow> e) @ bsn
          @ ''Endpoint: '' @ e_method (r_endpoint response) @ '' '' @ e_path (r_endpoint response) @ bsn
          @ ''Status Code: ''
          @ (case r_statusCode response of
               None \<Rightarrow> ''Unknown''
             | Some c \<Rightarrow> if c = 0 then ''Unknown'' else showInt c))
      else
        (let data = payload (r_data response);
             itemCount = (case data of JArr xs \<Rightarrow> length xs | _ \<Rightarrow> 1);
             result = successPrefix response @ showNat itemCount @ bsn @ bsn
         in case data of
              JArr xs \<Rightarrow>
                if length xs > 0 then
                  (case numbered 0 (take 3 xs) of
                     Inl e \<Rightarrow> Inl e
                   | Inr lines \<Rightarrow>
                       (let preview = joinWith bsn lines
                        in if length xs > 3
                           then Inr (result @ preview @ bsn @ ''... and ''
                                       @ showNat (length xs - 3) @ '' more items'')
                           else Inr (result @ preview)))
                else Inr (result @ ''No data returned'')
            | _ \<Rightarrow>
                if truthy data
                then (case formatItem data of Inl e \<Rightarrow> Inl e | Inr text \<Rightarrow> Inr (result @ text))
                else Inr (result @ ''No data returned'')))"

section \<open>Token Manager (\<open>OroCommerceClient\<close>)\<close>

record OroConfig =
  shopUrl :: string
  clientId :: string
  clientSecret :: string

subsection \<open>Numbers\<close>

text \<open>
  The numbers of the token manager are IEEE 754 double-precision values: a finite
  value, given as the rational it stands for, \<open>NaN\<close>, or an infinity. The sum and the
  difference of two finite values are the exact result rounded to the nearest double,
  ties to the even significand. (The two zeros are one value here; they are equal and
  both falsy.)
\<close>

datatype jsnumber = Num rat | NaN | PosInf | NegInf

definition pow2 :: "int \<Rightarrow> rat" where
  "pow2 e = (if e \<ge> 0 then 2 ^ nat e else 1 / 2 ^ nat (- e))"

text \<open>
  The exponent \<open>e\<close> with \<open>2 ^ e \<le> x < 2 ^ (e + 1)\<close>, searched from 0; the exponents
  of the doubles lie well within the bound of the search.
\<close>

fun searchExponent :: "nat \<Rightarrow> int \<Rightarrow> rat \<Rightarrow> int" where
  "searchExponent 0 e x = e"
| "searchExponent (Suc fuel) e x =
     (if x < pow2 e then searchExponent fuel (e - 1) x
      else if pow2 (e + 1) \<le> x then searchExponent fuel (e + 1) x
      else e)"

definition floorLog2 :: "rat \<Rightarrow> int" where
  "floorLog2 x = searchExponent 2200 0 \<bar>x\<bar>"

definition roundHalfEven :: "rat \<Rightarrow> int" where
  "roundHalfEven x =
     (let f = \<lfloor>x\<rfloor>; d = x - of_int f
      in if d < 1 / 2 then f else if d > 1 / 2 then f + 1 else if even f then f else f + 1)"

text \<open>
  Rounding to the nearest double: 53 significant bits, the smallest spacing
  \<open>2 ^ -1074\<close>, and infinity from \<open>2 ^ 1024\<close> on.
\<close>

definition roundDouble :: "rat \<Rightarrow> jsnumber" where
  "roundDouble x =
     (if x = 0 then Num 0
      else
        (let q = max (floorLog2 x - 52) (- 1074);
             r = of_int (roundHalfEven (x / pow2 q)) * pow2 q
         in if \<bar>r\<bar> \<ge> pow2 1024 then (if x > 0 then PosInf else NegInf) else Num r))"

fun numNegate :: "jsnumber \<Rightarrow> jsnumber" where
  "numNegate (Num a) = Num (- a)"
| "numNegate NaN = NaN"
| "numNegate PosInf = NegInf"
| "numNegate NegInf = PosInf"

text \<open>\<open>a + b\<close> on numbers.\<close>

fun numPlus :: "jsnumber \<Rightarrow> jsnumber \<Rightarrow> jsnumber" where
  "numPlus (Num a) (Num b) = roundDouble (a + b)"
| "numPlus NaN b = NaN"
| "numPlus a NaN = NaN"
| "numPlus PosInf NegInf = NaN"
| "numPlus NegInf PosInf = NaN"
| "numPlus PosInf b = PosInf"
| "numPlus NegInf b = NegInf"
| "numPlus a PosInf = PosInf"
| "numPlus a NegInf = NegInf"

text \<open>\<open>a - b\<close> on numbers.\<close>

definition numMinus :: "jsnumber \<Rightarrow> jsnumber \<Rightarrow> jsnumber" where
  "numMinus a b = numPlus a (numNegate b)"


subsection \<open>State and requests\<close>

text \<open>
  Times are seconds since the epoch: the value of \<open>Date.now() / 1000\<close>, a finite
  double. The stored expiry is \<open>null\<close> (\<open>None\<close>) or a number.
\<close>

record ClientState =
  token :: "string option"
  tokenExpiry :: "jsnumber option"

text \<open>
  The second argument of \<open>axios.post\<close>: a plain object, which is sent as JSON, or
  url-encoded form text.
\<close>

datatype request_data = ObjectData "(string \<times> string) list" | FormData string

record TokenRequest =
  tr_method :: string
  tr_url :: string
  tr_data :: request_data
  tr_headers :: "(string \<times> string) list"

text \<open>
  The body of a 2xx token response: \<open>null\<close>/\<open>undefined\<close>, or a value whose
  \<open>access_token\<close> (a string) and \<open>expires_in\<close> (a number) are each present or
  missing.
\<close>

datatype token_body = NoBody | TokenBody "string option" "jsnumber option"

text \<open>\<open>axios.post\<close> rejects on a network error and on a status outside 2xx.\<close>

datatype post_outcome = NetworkError | HttpError int | Success token_body

definition tokenRequest :: "OroConfig \<Rightarrow> TokenRequest" where
  "tokenRequest config =
     \<lparr>tr_method = ''POST'',
      tr_url = shopUrl config @ ''/oauth2-token'',
      tr_data = ObjectData [(''grant_type'', ''client_credentials''),
                            (''client_id'', clientId config),
                            (''client_secret'', clientSecret config)],
      tr_headers = [(''Content-Type'', ''application/json'')]\<rparr>"

definition authenticationFailed :: js_error where
  "authenticationFailed = Error ''Authentication failed with ORO Commerce API''"

text \<open>\<open>(Date.now() / 1000) + tokenData.expires_in - 300\<close>\<close>

definition expiryFor :: "rat \<Rightarrow> jsnumber option \<Rightarrow> jsnumber" where
  "expiryFor now expires_in =
     (case expires_in of
        None \<Rightarrow> NaN
      | Some e \<Rightarrow> numMinus (numPlus (Num now) e) (Num 300))"

text \<open>
  \<open>refreshToken\<close>, given the outcome of the POST and the time \<open>now\<close> read once the
  response has arrived. The result is the exception thrown or none, the new state, and
  the requests that were sent.
\<close>

definition refreshToken :: "OroConfig \<Rightarrow> (TokenRequest \<Rightarrow> post_outcome) \<Rightarrow> rat \<Rightarrow> ClientState
    \<Rightarrow> (js_error + unit) \<times> ClientState \<times> TokenRequest list" where
  "refreshToken config post now st =
     (case post (tokenRequest config) of
        NetworkError \<Rightarrow> (Inl authenticationFailed, st, [tokenRequest config])
      | HttpError status \<Rightarrow> (Inl authenticationFailed, st, [tokenRequest config])
      | Success NoBody \<Rightarrow> (Inl authenticationFailed, st, [tokenRequest config])
      | Success (TokenBody access_token expires_in) \<Rightarrow>
          (Inr (),
           st\<lparr>token := access_token, tokenExpiry := Some (expiryFor now expires_in)\<rparr>,
           [tokenRequest config]))"



section \<open>Notions used to state the properties\<close>

subsection \<open>Shape of a normalized name\<close>

text \<open>No two underscores in a row.\<close>

fun sparse :: "string \<Rightarrow> bool" where
  "sparse [] = True"
| "sparse [c] = True"
| "sparse (c # d # r) = (\<not> (c = CHR ''_'' \<and> d = CHR ''_'') \<and> sparse (d # r))"

text \<open>No underscore at either end.\<close>

definition trimmed :: "string \<Rightarrow> bool" where
  "trimmed s = (s = [] \<or> (hd s \<noteq> CHR ''_'' \<and> last s \<noteq> CHR ''_''))"

text \<open>Only letters, digits and underscores.\<close>

definition plain :: "string \<Rightarrow> bool" where
  "plain s = (\<forall>c \<in> set s. isAlnum c \<or> c = CHR ''_'')"

subsection \<open>The invariant of the loops of \<open>generateInputSchema\<close>\<close>

definition requiredWithinProperties :: "(string \<rightharpoonup> PropertySchema) \<times> string list \<Rightarrow> bool" where
  "requiredWithinProperties acc = (set (snd acc) \<subseteq> dom (fst acc))"

subsection \<open>The (path, HTTP method) pairs of a document\<close>

text \<open>
  This part follows the words of the specification, not the parser: an HTTP method is
  one of the method fields that OpenAPI gives a path item, in any letter case, and the
  pairs counted are those whose method is neither OPTIONS nor HEAD.
\<close>

definition httpMethods :: "string list" where
  "httpMethods = [''get'', ''put'', ''post'', ''delete'', ''options'', ''head'', ''patch'', ''trace'']"

definition isHttpMethod :: "string \<Rightarrow> bool" where
  "isHttpMethod key = (toLowerCase key \<in> set httpMethods)"

definition countedMethod :: "string \<Rightarrow> bool" where
  "countedMethod key =
     (isHttpMethod key \<and> toUpperCase key \<noteq> ''OPTIONS'' \<and> toUpperCase key \<noteq> ''HEAD'')"

fun specItemPairs :: "string \<Rightarrow> (string \<times> entry_value) list \<Rightarrow> (string \<times> string) list" where
  "specItemPairs path [] = []"
| "specItemPairs path ((key, v) # es) =
     (if countedMethod key then (path, key) # specItemPairs path es else specItemPairs path es)"

fun specPathPairs :: "(string \<times> path_item) list \<Rightarrow> (string \<times> string) list" where
  "specPathPairs [] = []"
| "specPathPairs ((path, NotAnObject) # ps) = specPathPairs ps"
| "specPathPairs ((path, PathItem es) # ps) = specItemPairs path es @ specPathPairs ps"

definition specToolPairs :: "Document \<Rightarrow> (string \<times> string) list" where
  "specToolPairs doc = specPathPairs (case doc_paths doc of None \<Rightarrow> [] | Some ps \<Rightarrow> ps)"

fun isOperationValue :: "entry_value \<Rightarrow> bool" where
  "isOperationValue (OperationValue op) = True"
| "isOperationValue v = False"

fun entriesOf :: "path_item \<Rightarrow> (string \<times> entry_value) list" where
  "entriesOf NotAnObject = []"
| "entriesOf (PathItem es) = es"

definition allEntries :: "Document \<Rightarrow> (string \<times> entry_value) list" where
  "allEntries doc =
     concat (map (\<lambda>(path, item). entriesOf item) (case doc_paths doc of None \<Rightarrow> [] | Some ps \<Rightarrow> ps))"

text \<open>In a valid document every method field of a path item holds an operation object.\<close>

definition methodKeysHoldOperations :: "Document \<Rightarrow> bool" where
  "methodKeysHoldOperations doc =
     list_all (\<lambda>(key, v). isHttpMethod key \<longrightarrow> isOperationValue v) (allEntries doc)"

text \<open>
  No field of a path item other than the method fields and \<open>parameters\<close> holds an
  object or an array.
\<close>

definition onlyMethodKeysHoldObjects :: "Document \<Rightarrow> bool" where
  "onlyMethodKeysHoldObjects doc =
     list_all (\<lambda>(key, v). v \<noteq> Primitive \<longrightarrow> key = ''parameters'' \<or> isHttpMethod key) (allEntries doc)"


text \<open>
  Every entry of the \<open>responses\<close> object of every operation that the enumerator reads
  is an object.
\<close>

definition responsesAreObjects :: "OperationObject \<Rightarrow> bool" where
  "responsesAreObjects op = list_all (\<lambda>(code, r). r \<noteq> ResponsePrimitive) (responsesOf op)"

fun entryParses :: "string \<times> entry_value \<Rightarrow> bool" where
  "entryParses (key, OperationValue op) = (key = ''parameters'' \<or> responsesAreObjects op)"
| "entryParses (key, v) = True"

definition noPrimitiveResponses :: "Document \<Rightarrow> bool" where
  "noPrimitiveResponses doc = list_all entryParses (allEntries doc)"

subsection \<open>Parameter names\<close>

text \<open>No path or query parameter of the endpoint is called \<open>__proto__\<close>.\<close>

definition ordinaryParameterNames :: "SwaggerEndpoint \<Rightarrow> bool" where
  "ordinaryParameterNames ep =
     list_all (\<lambda>p. p_in p \<in> {''path'', ''query''} \<longrightarrow> p_name p \<noteq> ''__proto__'') (ep_parameters ep)"

section \<open>Example inputs\<close>

definition plainEndpoint :: "string \<Rightarrow> string \<Rightarrow> string \<Rightarrow> SwaggerEndpoint" where
  "plainEndpoint path method operationId =
     \<lparr>ep_path = path, ep_method = method, ep_operationId = operationId,
      ep_summary = [], ep_description = [], ep_parameters = [], ep_tags = [],
      ep_requestBody = None, ep_responses = []\<rparr>"

definition widgetEndpoint :: SwaggerEndpoint where
  "widgetEndpoint =
     \<lparr>ep_path = ''/widgets/{id}'', ep_method = ''GET'', ep_operationId = ''get__widgets__id_'',
      ep_summary = [], ep_description = [],
      ep_parameters = [\<lparr>p_name = ''id'', p_in = ''path'', p_description = None, p_required = True,
                        p_schema = JObj [(''type'', JStr ''string'')], p_example = JUndefined\<rparr>],
      ep_tags = [], ep_requestBody = None, ep_responses = []\<rparr>"

text \<open>An endpoint with one required query parameter, called \<open>__proto__\<close>.\<close>

definition protoEndpoint :: SwaggerEndpoint where
  "protoEndpoint =
     \<lparr>ep_path = ''/widgets'', ep_method = ''GET'', ep_operationId = ''listWidgets'',
      ep_summary = [], ep_description = [],
      ep_parameters = [\<lparr>p_name = ''__proto__'', p_in = ''query'', p_description = None,
                        p_required = True, p_schema = JObj [(''type'', JStr ''string'')],
                        p_example = JUndefined\<rparr>],
      ep_tags = [], ep_requestBody = None, ep_responses = []\<rparr>"

definition noOptions :: DynamicRequestOptions where
  "noOptions = \<lparr>pathParams = None, queryParams = None, requestBody = JUndefined, headers = None\<rparr>"

definition idParams :: DynamicRequestOptions where
  "idParams = \<lparr>pathParams = Some [(''id'', JStr ''42'')], queryParams = None,
                requestBody = JUndefined, headers = None\<rparr>"

text \<open>A path parameter that is an object with a \<open>toString\<close> field.\<close>

definition objectParams :: DynamicRequestOptions where
  "objectParams = \<lparr>pathParams = Some [(''id'', JObj [(''toString'', JStr ''42'')])],
                    queryParams = None, requestBody = JUndefined, headers = None\<rparr>"

definition okTransport :: transport where
  "okTransport config = Inr \<lparr>h_data = JArr [], h_status = 200\<rparr>"

definition failingTransport :: transport where
  "failingTransport config =
     Inl (Thrown \<lparr>te_response = Some \<lparr>er_status = Some 404,
                                       er_data = JObj [(''message'', JStr ''Not Found'')]\<rparr>,
                  te_message = JStr ''Request failed with status code 404''\<rparr>)"

definition offlineTransport :: transport where
  "offlineTransport config = Inl (Thrown \<lparr>te_response = None, te_message = JStr ''Network Error''\<rparr>)"

text \<open>
  An upstream error response with the JSON body
  \<open>{"message": {"toString": "overloaded"}}\<close>.
\<close>

definition objectMessageTransport :: transport where
  "objectMessageTransport config =
     Inl (Thrown \<lparr>te_response = Some \<lparr>er_status = Some 503,
              er_data = JObj [(''message'', JObj [(''toString'', JStr ''overloaded'')])]\<rparr>,
            te_message = JStr ''Request failed with status code 503''\<rparr>)"

text \<open>A transport whose promise is rejected without a reason.\<close>

definition nullishTransport :: transport where
  "nullishTransport config = Inl Nullish"

definition getOperation :: OperationObject where
  "getOperation = emptyOperation\<lparr>op_operationId := Some ''listWidgets''\<rparr>"

text \<open>A path item with a \<open>servers\<close> array beside its one operation.\<close>

definition serversDocument :: Document where
  "serversDocument = \<lparr>doc_paths = Some [(''/widgets'',
      PathItem [(''summary'', Primitive), (''get'', OperationValue getOperation),
                (''servers'', ArrayValue), (''parameters'', ArrayValue)])]\<rparr>"

text \<open>
  An operation whose \<open>responses\<close> object has, beside the response \<open>200\<close>, the
  extension field \<open>x-internal: true\<close>.
\<close>

definition extensionOperation :: OperationObject where
  "extensionOperation = emptyOperation\<lparr>op_operationId := Some ''listWidgets'',
     op_responses := Some [(''200'', ResponseObj \<lparr>ro_description = Some ''OK'', ro_content = None\<rparr>),
                           (''x-internal'', ResponsePrimitive)]\<rparr>"

definition extensionDocument :: Document where
  "extensionDocument = \<lparr>doc_paths = Some [(''/widgets'',
      PathItem [(''get'', OperationValue extensionOperation)])]\<rparr>"

definition methodsDocument :: Document where
  "methodsDocument = \<lparr>doc_paths = Some [(''/widgets'',
      PathItem [(''summary'', Primitive), (''get'', OperationValue getOperation),
                (''options'', OperationValue emptyOperation), (''parameters'', ArrayValue)]),
      (''/widgets/{id}'', PathItem [(''delete'', OperationValue emptyOperation)])]\<rparr>"

definition shopConfig :: OroConfig where
  "shopConfig = \<lparr>shopUrl = ''https://shop.example'', clientId = ''id'', clientSecret = ''secret''\<rparr>"

definition noToken :: ClientState where
  "noToken = \<lparr>token = None, tokenExpiry = None\<rparr>"

definition expiredState :: ClientState where
  "expiredState = \<lparr>token = Some ''old-token'', tokenExpiry = Some (Num 1000)\<rparr>"





definition fiveItems :: "jsval list" where
  "fiveItems =
     [JObj [(''id'', JNum 1 ''1''), (''name'', JStr ''Acme''), (''sku'', JStr ''A-1''),
            (''status'', JStr ''open'')],
      JObj [(''code'', JStr ''x''), (''price'', JNum 7 ''7'')],
      JStr ''plain'', JNull, JArr [JNum 4 ''4'', JNum 5 ''5'']]"

text \<open>Five items, the first with a field called \<open>hasOwnProperty\<close>.\<close>

definition shadowingItems :: "jsval list" where
  "shadowingItems =
     [JObj [(''id'', JNum 1 ''1''), (''hasOwnProperty'', JBool True)],
      JObj [(''id'', JNum 2 ''2'')], JObj [(''id'', JNum 3 ''3'')],
      JObj [(''id'', JNum 4 ''4'')], JObj [(''id'', JNum 5 ''5'')]]"

definition listResponse :: "jsval \<Rightarrow> DynamicResponse" where
  "listResponse d = \<lparr>r_success = True, r_data = d, r_error = None, r_statusCode = Some 200,
     r_endpoint = \<lparr>e_path = ''/accounts'', e_method = ''GET'', e_operationId = ''listAccounts''\<rparr>\<rparr>"

section \<open>Auxiliary facts\<close>

lemmas charDefs = toLowerCase_def toUpperCase_def toLowerChar_def toUpperChar_def
  upperLetters_def lowerLetters_def digitChars_def isAlnum_def replaceNonAlnum_def
  stripUnderscoreEnds_def normalizeName_def

lemma showNat_small:
  "showNat 0 = ''0''" "showNat 1 = ''1''" "showNat 2 = ''2''" "showNat 3 = ''3''" "showNat 5 = ''5''"
  "showNat (Suc 0) = ''1''" "showNat (Suc (Suc 0)) = ''2''" "showNat (Suc (Suc (Suc 0))) = ''3''"
  "showNat (Suc (Suc (Suc (Suc (Suc 0))))) = ''5''"
  by (simp_all add: showNat.simps digitChars_def)

subsection \<open>Characters\<close>

lemma toLowerChar_idem: "toLowerChar (toLowerChar c) = toLowerChar c"
  by (simp add: toLowerChar_def upperLetters_def lowerLetters_def)

lemma toLowerChar_underscore: "toLowerChar c = CHR ''_'' \<longleftrightarrow> c = CHR ''_''"
  by (simp add: toLowerChar_def upperLetters_def lowerLetters_def)

lemma isAlnum_toLowerChar: "isAlnum (toLowerChar c) = isAlnum c"
  by (simp add: toLowerChar_def isAlnum_def upperLetters_def lowerLetters_def digitChars_def)

subsection \<open>Collapsing runs of underscores\<close>

lemma collapse_hd: "collapseUnderscores s = c # r \<Longrightarrow> \<exists>r'. s = c # r'"
  by (cases s) (auto split: if_splits)

lemma sparse_collapse: "sparse (collapseUnderscores s)"
proof (induction s rule: collapseUnderscores.induct)
  case 1
  then show ?case by simp
next
  case (2 c cs)
  show ?case
  proof (cases "c = CHR ''_''")
    case True
    let ?rest = "dropWhile (\<lambda>d. d = CHR ''_'') cs"
    have ih: "sparse (collapseUnderscores ?rest)" using 2(1) True by simp
    have "collapseUnderscores ?rest = [] \<or> hd (collapseUnderscores ?rest) \<noteq> CHR ''_''"
    proof (cases "collapseUnderscores ?rest")
      case Nil
      then show ?thesis by simp
    next
      case (Cons a as)
      then obtain r' where "?rest = a # r'" using collapse_hd by blast
      then have "a \<noteq> CHR ''_''" using hd_dropWhile[of "\<lambda>d. d = CHR ''_''" cs] by auto
      then show ?thesis using Cons by simp
    qed
    then show ?thesis using ih True by (cases "collapseUnderscores ?rest") auto
  next
    case False
    then show ?thesis using 2(2) by (cases "collapseUnderscores cs") auto
  qed
qed

lemma collapse_sparse: "sparse s \<Longrightarrow> collapseUnderscores s = s"
  by (induction s rule: sparse.induct) auto

lemma sparse_tl: "sparse s \<Longrightarrow> sparse (tl s)"
  by (induction s rule: sparse.induct) auto

lemma sparse_butlast: "sparse s \<Longrightarrow> sparse (butlast s)"
  by (induction s rule: sparse.induct) (auto split: if_splits)

lemma sparse_map_lower: "sparse (map toLowerChar s) = sparse s"
  by (induction s rule: sparse.induct) (auto simp: toLowerChar_underscore)

lemma set_collapse: "set (collapseUnderscores s) \<subseteq> set s"
proof (induction s rule: collapseUnderscores.induct)
  case (2 c cs)
  then show ?case using set_dropWhileD[of _ "\<lambda>d. d = CHR ''_''" cs] by (auto split: if_splits)
qed simp

subsection \<open>Stripping the ends\<close>

lemma sparse_last_butlast:
  "sparse s \<Longrightarrow> s \<noteq> [] \<Longrightarrow> last s = CHR ''_'' \<Longrightarrow> butlast s \<noteq> []
     \<Longrightarrow> last (butlast s) \<noteq> CHR ''_''"
  by (induction s rule: sparse.induct) (auto split: if_splits)

lemma hd_butlast: "butlast s \<noteq> [] \<Longrightarrow> hd (butlast s) = hd s"
  by (cases s) (auto split: if_splits)

lemma sparse_hd_tl: "sparse (CHR ''_'' # r) \<Longrightarrow> r \<noteq> [] \<Longrightarrow> hd r \<noteq> CHR ''_''"
  by (cases r) auto

lemma trimmed_strip:
  assumes "sparse s"
  shows "trimmed (stripUnderscoreEnds s)"
proof -
  define s1 where "s1 = (case s of [] \<Rightarrow> [] | c # r \<Rightarrow> if c = CHR ''_'' then r else s)"
  have sp1: "sparse s1"
    using assms sparse_tl[OF assms] by (auto simp: s1_def split: list.splits)
  have hd1: "s1 = [] \<or> hd s1 \<noteq> CHR ''_''"
    using assms sparse_hd_tl by (auto simp: s1_def split: list.splits)
  have eq: "stripUnderscoreEnds s = (if s1 \<noteq> [] \<and> last s1 = CHR ''_'' then butlast s1 else s1)"
    by (simp add: stripUnderscoreEnds_def s1_def Let_def)
  show ?thesis
  proof (cases "s1 \<noteq> [] \<and> last s1 = CHR ''_''")
    case True
    then have "butlast s1 = [] \<or> (hd (butlast s1) \<noteq> CHR ''_'' \<and> last (butlast s1) \<noteq> CHR ''_'')"
      using sparse_last_butlast[OF sp1] hd_butlast[of s1] hd1 by auto
    then show ?thesis using True eq by (simp add: trimmed_def)
  next
    case False
    then show ?thesis using eq hd1 by (auto simp: trimmed_def)
  qed
qed

lemma sparse_strip:
  assumes "sparse s"
  shows "sparse (stripUnderscoreEnds s)"
proof -
  define s1 where "s1 = (case s of [] \<Rightarrow> [] | c # r \<Rightarrow> if c = CHR ''_'' then r else s)"
  have sp1: "sparse s1"
    using assms sparse_tl[OF assms] by (auto simp: s1_def split: list.splits)
  have eq: "stripUnderscoreEnds s = (if s1 \<noteq> [] \<and> last s1 = CHR ''_'' then butlast s1 else s1)"
    by (simp add: stripUnderscoreEnds_def s1_def Let_def)
  show ?thesis using sp1 sparse_butlast[OF sp1] by (simp add: eq)
qed

lemma strip_trimmed: "trimmed s \<Longrightarrow> stripUnderscoreEnds s = s"
  by (cases s) (auto simp: trimmed_def stripUnderscoreEnds_def Let_def)

lemma trimmed_map_lower: "trimmed (map toLowerChar s) = trimmed s"
  by (cases s) (auto simp: trimmed_def toLowerChar_underscore last_map hd_map)

lemma set_strip: "set (stripUnderscoreEnds s) \<subseteq> set s"
  by (cases s) (auto simp: stripUnderscoreEnds_def Let_def dest: in_set_butlastD)

subsection \<open>Replacing the other characters\<close>

lemma plain_replace: "plain (replaceNonAlnum s)"
  by (auto simp: plain_def replaceNonAlnum_def)

lemma replace_plain: "plain s \<Longrightarrow> replaceNonAlnum s = s"
  by (induction s) (auto simp: plain_def replaceNonAlnum_def)

lemma plain_map_lower: "plain s \<Longrightarrow> plain (map toLowerChar s)"
  by (auto simp: plain_def isAlnum_toLowerChar toLowerChar_underscore)

subsection \<open>The normalization as a whole\<close>

lemma normalizeName_idempotent: "normalizeName (normalizeName s) = normalizeName s"
proof -
  let ?c = "collapseUnderscores (replaceNonAlnum s)"
  let ?t = "stripUnderscoreEnds ?c"
  let ?n = "map toLowerChar ?t"
  have n: "normalizeName s = ?n" by (simp add: normalizeName_def toLowerCase_def)
  have "plain ?c"
    using plain_replace[of s] set_collapse[of "replaceNonAlnum s"] by (auto simp: plain_def)
  then have "plain ?t" using set_strip[of ?c] by (auto simp: plain_def)
  then have p: "plain ?n" by (rule plain_map_lower)
  have spc: "sparse ?c" by (rule sparse_collapse)
  then have "sparse ?t" by (rule sparse_strip)
  then have sp: "sparse ?n" by (simp add: sparse_map_lower)
  have "trimmed ?t" using spc by (rule trimmed_strip)
  then have tr: "trimmed ?n" by (simp add: trimmed_map_lower)
  have "normalizeName ?n
          = map toLowerChar (stripUnderscoreEnds (collapseUnderscores (replaceNonAlnum ?n)))"
    by (simp add: normalizeName_def toLowerCase_def)
  also have "\<dots> = map toLowerChar ?n"
    using replace_plain[OF p] collapse_sparse[OF sp] strip_trimmed[OF tr] by simp
  also have "\<dots> = ?n" by (simp add: toLowerChar_idem)
  finally show ?thesis using n by simp
qed

lemma makeEndpoint_operationId: "ep_operationId (makeEndpoint path method op) \<noteq> []"
  by (simp add: makeEndpoint_def strOr_def split: option.splits)

lemma generateToolName_normalized: "\<exists>name. generateToolName ep = normalizeName name"
  unfolding generateToolName_def Let_def by blast

lemma widget_operationId:
  "ep_operationId (makeEndpoint ''/widgets/{id}'' ''get'' emptyOperation) = ''get__widgets__id_''"
  by (simp add: makeEndpoint_def emptyOperation_def strOr_def replaceNonAlnum_def isAlnum_def
      lowerLetters_def upperLetters_def digitChars_def)

lemma widget_name: "normalizeName ''get__widgets__id_'' = ''get_widgets_id''"
  by (simp add: charDefs)

lemma normalize_example: "normalizeName ''Get-/Accounts__{ID}_'' = ''get_accounts_id''"
  by (simp add: charDefs)

subsection \<open>The tool list\<close>

lemma generateMCPTools_append:
  "generateMCPTools (xs @ ys) = generateMCPTools xs @ generateMCPTools ys"
  by (induction xs) auto

lemma find_append_none: "List.find P xs = None \<Longrightarrow> List.find P (xs @ ys) = List.find P ys"
  by (induction xs) (auto split: if_splits)

lemma findTool_skips:
  "\<forall>e \<in> set pre. shouldSkipEndpoint e \<or> generateToolName e \<noteq> name \<Longrightarrow>
   List.find (\<lambda>t. toolName t = name) (generateMCPTools pre) = None"
  by (induction pre) auto

lemma name_first: "generateToolName (plainEndpoint ''/first'' ''GET'' ''get-a'') = ''get_a''"
  by (simp add: generateToolName_def plainEndpoint_def charDefs)

lemma name_second: "generateToolName (plainEndpoint ''/second'' ''GET'' ''get_a'') = ''get_a''"
  by (simp add: generateToolName_def plainEndpoint_def charDefs)

lemma noskip: "\<not> shouldSkipEndpoint (plainEndpoint p ''GET'' i)"
  by (simp add: shouldSkipEndpoint_def plainEndpoint_def)

subsection \<open>Counting endpoints\<close>

lemma parameters_not_method: "\<not> isHttpMethod ''parameters''"
  by (simp add: isHttpMethod_def httpMethods_def charDefs)

lemma method_makeEndpoint: "ep_method (makeEndpoint path key op) = toUpperCase key"
  by (simp add: makeEndpoint_def)

lemma skip_makeEndpoint:
  "shouldSkipEndpoint (makeEndpoint path key op) \<longleftrightarrow>
     toUpperCase key = ''OPTIONS'' \<or> toUpperCase key = ''HEAD''"
  by (simp add: shouldSkipEndpoint_def method_makeEndpoint)

lemma length_tools_append:
  "length (generateMCPTools (xs @ ys)) = length (generateMCPTools xs) + length (generateMCPTools ys)"
  by (simp add: generateMCPTools_append)

lemma parseResponses_objects:
  "list_all (\<lambda>(code, r). r \<noteq> ResponsePrimitive) rs \<Longrightarrow> \<exists>result. parseResponses rs parsed = Inr result"
proof (induction rs arbitrary: parsed)
  case Nil
  then show ?case by simp
next
  case (Cons entry rs)
  obtain code r where entry: "entry = (code, r)" by (cases entry)
  show ?case using Cons entry by (cases r) auto
qed

lemma pushEndpoint_objects:
  "responsesAreObjects op \<Longrightarrow> pushEndpoint path key op = Inr (makeEndpoint path key op)"
  using parseResponses_objects[of "responsesOf op" "[]"]
  by (auto simp: pushEndpoint_def responsesAreObjects_def)

lemma pushEndpoint_empty:
  "pushEndpoint path key emptyOperation = Inr (makeEndpoint path key emptyOperation)"
  by (simp add: pushEndpoint_def responsesOf_def emptyOperation_def)

lemma item_count:
  assumes "list_all (\<lambda>(key, v). isHttpMethod key \<longrightarrow> isOperationValue v) es"
    and "list_all (\<lambda>(key, v). v \<noteq> Primitive \<longrightarrow> key = ''parameters'' \<or> isHttpMethod key) es"
    and "list_all entryParses es"
  shows "\<exists>eps. itemEndpoints path es = Inr eps
           \<and> length (generateMCPTools eps) = length (specItemPairs path es)"
  using assms
proof (induction path es rule: itemEndpoints.induct)
  case (1 path)
  then show ?case by simp
next
  case (2 path key es)
  then show ?case by (auto simp: countedMethod_def)
next
  case (3 path key es)
  then show ?case by (auto simp: countedMethod_def parameters_not_method)
next
  case (4 path key op es)
  show ?case
  proof (cases "key = ''parameters''")
    case True
    then show ?thesis using 4 by (auto simp: countedMethod_def parameters_not_method)
  next
    case False
    then have push: "pushEndpoint path key op = Inr (makeEndpoint path key op)"
      using "4.prems"(3) by (simp add: pushEndpoint_objects)
    have "\<exists>eps. itemEndpoints path es = Inr eps
            \<and> length (generateMCPTools eps) = length (specItemPairs path es)"
      using "4.IH"(2)[OF False push] "4.prems" by simp
    then obtain eps where eps: "itemEndpoints path es = Inr eps"
      "length (generateMCPTools eps) = length (specItemPairs path es)"
      by blast
    have "isHttpMethod key" using "4.prems"(2) False by simp
    then show ?thesis
      using False push eps by (simp add: countedMethod_def skip_makeEndpoint)
  qed
qed

lemma paths_count:
  assumes "list_all (\<lambda>(key, v). isHttpMethod key \<longrightarrow> isOperationValue v)
             (concat (map (\<lambda>(path, item). entriesOf item) ps))"
    and "list_all (\<lambda>(key, v). v \<noteq> Primitive \<longrightarrow> key = ''parameters'' \<or> isHttpMethod key)
             (concat (map (\<lambda>(path, item). entriesOf item) ps))"
    and "list_all entryParses (concat (map (\<lambda>(path, item). entriesOf item) ps))"
  shows "\<exists>eps. pathsEndpoints ps = Inr eps
           \<and> length (generateMCPTools eps) = length (specPathPairs ps)"
  using assms
proof (induction ps rule: pathsEndpoints.induct)
  case 1
  then show ?case by simp
next
  case (2 path ps)
  then show ?case by simp
next
  case (3 path es ps)
  have "\<exists>eps. itemEndpoints path es = Inr eps
          \<and> length (generateMCPTools eps) = length (specItemPairs path es)"
    using "3.prems" by (intro item_count) simp_all
  then obtain eps where eps: "itemEndpoints path es = Inr eps"
    "length (generateMCPTools eps) = length (specItemPairs path es)"
    by blast
  have "\<exists>rest. pathsEndpoints ps = Inr rest
          \<and> length (generateMCPTools rest) = length (specPathPairs ps)"
    using "3.IH"[OF eps(1)] "3.prems" by simp
  then obtain rest where rest: "pathsEndpoints ps = Inr rest"
    "length (generateMCPTools rest) = length (specPathPairs ps)"
    by blast
  show ?case using eps rest by (simp add: length_tools_append)
qed

lemma methods_tables:
  "isHttpMethod ''get''" "isHttpMethod ''delete''" "isHttpMethod ''options''"
  "\<not> isHttpMethod ''servers''" "\<not> isHttpMethod ''summary''"
  "toUpperCase ''get'' = ''GET''" "toUpperCase ''delete'' = ''DELETE''"
  "toUpperCase ''options'' = ''OPTIONS''" "toUpperCase ''servers'' = ''SERVERS''"
  by (simp_all add: isHttpMethod_def httpMethods_def charDefs)

lemma servers_endpoints:
  "getAllEndpoints serversDocument
     = Inr [makeEndpoint ''/widgets'' ''get'' getOperation,
            makeEndpoint ''/widgets'' ''servers'' emptyOperation]"
  by (simp add: getAllEndpoints_def serversDocument_def pushEndpoint_def responsesOf_def
      getOperation_def emptyOperation_def)

lemma extension_throws: "getAllEndpoints extensionDocument = Inl TypeError"
  by (simp add: getAllEndpoints_def extensionDocument_def pushEndpoint_def responsesOf_def
      extensionOperation_def emptyOperation_def assign_def)

subsection \<open>The input schema\<close>

lemma addParameter_inv:
  "requiredWithinProperties acc \<Longrightarrow> p_name param \<noteq> ''__proto__''
     \<Longrightarrow> requiredWithinProperties (addParameter param acc)"
  by (auto simp: requiredWithinProperties_def addParameter_def assignKey_def Let_def)

lemma addParameters_inv:
  "requiredWithinProperties acc \<Longrightarrow> list_all (\<lambda>p. p_name p \<noteq> ''__proto__'') ps
     \<Longrightarrow> requiredWithinProperties (addParameters ps acc)"
  by (induction ps arbitrary: acc) (auto simp: addParameter_inv)

lemma addRequestBody_inv:
  "requiredWithinProperties acc \<Longrightarrow> requiredWithinProperties (addRequestBody body acc)"
  by (auto simp: requiredWithinProperties_def addRequestBody_def assignKey_def split: option.splits)

lemma ordinary_filtered:
  "ordinaryParameterNames ep \<Longrightarrow> loc \<in> {''path'', ''query''}
     \<Longrightarrow> list_all (\<lambda>p. p_name p \<noteq> ''__proto__'') (filter (\<lambda>p. p_in p = loc) (ep_parameters ep))"
  by (auto simp: ordinaryParameterNames_def list_all_iff)

lemma inputSchema_required_within_properties:
  assumes "ordinaryParameterNames ep" and "is_required (generateInputSchema ep) = Some r"
  shows "r \<noteq> [] \<and> set r \<subseteq> dom (is_properties (generateInputSchema ep))"
proof -
  let ?acc1 = "addParameters (filter (\<lambda>p. p_in p = ''path'') (ep_parameters ep)) (Map.empty, [])"
  let ?acc2 = "addParameters (filter (\<lambda>p. p_in p = ''query'') (ep_parameters ep)) ?acc1"
  let ?acc3 = "addRequestBody (ep_requestBody ep) ?acc2"
  have "requiredWithinProperties (Map.empty, [])" by (simp add: requiredWithinProperties_def)
  moreover have "list_all (\<lambda>p. p_name p \<noteq> ''__proto__'')
                   (filter (\<lambda>p. p_in p = ''path'') (ep_parameters ep))"
    using assms(1) by (intro ordinary_filtered) simp_all
  ultimately have "requiredWithinProperties ?acc1" by (rule addParameters_inv)
  moreover have "list_all (\<lambda>p. p_name p \<noteq> ''__proto__'')
                   (filter (\<lambda>p. p_in p = ''query'') (ep_parameters ep))"
    using assms(1) by (intro ordinary_filtered) simp_all
  ultimately have "requiredWithinProperties ?acc2" by (rule addParameters_inv)
  then have "requiredWithinProperties ?acc3" by (rule addRequestBody_inv)
  then show ?thesis
    using assms(2) by (auto simp: generateInputSchema_def Let_def requiredWithinProperties_def split: if_splits)
qed

subsection \<open>Rounding to doubles\<close>























subsection \<open>Token refresh\<close>



subsection \<open>Formatting\<close>

lemma payload_list:
  assumes "d = JArr items \<or> getProp d ''data'' = JArr items"
  shows "payload d = JArr items"
  using assms
proof
  assume "d = JArr items"
  then show ?thesis by (simp add: payload_def)
next
  assume "getProp d ''data'' = JArr items"
  then show ?thesis by (cases d) (auto simp: payload_def)
qed

lemma formatItem_examples:
  "formatItem (JObj [(''id'', JNum 1 ''1''), (''name'', JStr ''Acme''), (''sku'', JStr ''A-1''),
                     (''status'', JStr ''open'')])
     = Inr ''id: 1, name: Acme, sku: A-1''"
  "formatItem (JObj [(''code'', JStr ''x''), (''price'', JNum 7 ''7'')]) = Inr ''code: x, price: 7''"
  "formatItem (JStr ''plain'') = Inr ''plain''"
  by (simp_all add: formatItem_def keyFields_def labelled_def)

section \<open>The claims\<close>

subsection \<open>C1: the token request\<close>

text \<open>
  C1 says that the token refresh posts the client-credentials grant, the client id and
  the client secret to the token endpoint as form-url-encoded content, not as JSON.
  The code does post to \<open>/oauth2-token\<close> and does send the three fields, but it sends
  them as a plain object under the header \<open>Content-Type: application/json\<close>: for the
  configuration \<open>shopConfig\<close> the one request of a refresh is the following.
\<close>

theorem refreshToken_posts_json:
  "snd (snd (refreshToken shopConfig post now noToken)) = [tokenRequest shopConfig]
   \<and> tr_method (tokenRequest shopConfig) = ''POST''
   \<and> tr_url (tokenRequest shopConfig) = ''https://shop.example/oauth2-token''
   \<and> map_of (tr_headers (tokenRequest shopConfig)) ''Content-Type'' = Some ''application/json''
   \<and> tr_data (tokenRequest shopConfig)
       = ObjectData [(''grant_type'', ''client_credentials''), (''client_id'', ''id''),
                     (''client_secret'', ''secret'')]"
  by (simp add: refreshToken_def tokenRequest_def shopConfig_def
      split: post_outcome.splits token_body.splits)

subsection \<open>C2: path parameters\<close>

text \<open>
  C2 says that every occurrence of \<open>{name}\<close> in the path template is replaced by the
  value of the path parameter \<open>name\<close>, and that \<open>/accounts/{id}/contacts\<close> with
  \<open>id = "42"\<close> gives \<open>/accounts/42/contacts\<close>. The second part holds. The first does
  not: \<open>replace\<close> with a string pattern replaces the first occurrence only, so in a
  template that names \<open>{id}\<close> twice the second placeholder stays in the URL that is
  sent.
\<close>

theorem buildUrl_replaces_first_occurrence_only:
  "buildUrl (plainEndpoint ''/orders/{id}/copies/{id}'' ''GET'' ''copyOrder'') idParams
     = Inr ''/orders/42/copies/{id}''
   \<and> map_sum id c_url
         (buildConfig (plainEndpoint ''/orders/{id}/copies/{id}'' ''GET'' ''copyOrder'') idParams)
     = Inr ''/orders/42/copies/{id}''
   \<and> buildUrl (plainEndpoint ''/accounts/{id}/contacts'' ''GET'' ''listContacts'') idParams
     = Inr ''/accounts/42/contacts''"
  by (simp add: buildUrl_def buildConfig_def plainEndpoint_def idParams_def jsReplace_def)

subsection \<open>C3: two endpoints with one tool name\<close>

text \<open>
  C3 says that when two endpoints normalize to the same tool name, lookup by that name
  resolves to the later one. The lookup is \<open>Array.prototype.find\<close>, which returns the
  first match: the operation ids \<open>get-a\<close> and \<open>get_a\<close> both give the tool name
  \<open>get_a\<close>, and the call goes to the endpoint listed first.
\<close>

theorem lookup_later_wins_counterexample:
  "generateToolName (plainEndpoint ''/first'' ''GET'' ''get-a'') = ''get_a''
   \<and> generateToolName (plainEndpoint ''/second'' ''GET'' ''get_a'') = ''get_a''
   \<and> map_option endpoint
        (findTool (generateMCPTools [plainEndpoint ''/first'' ''GET'' ''get-a'',
                                     plainEndpoint ''/second'' ''GET'' ''get_a'']) ''get_a'')
       \<noteq> Some (plainEndpoint ''/second'' ''GET'' ''get_a'')
   \<and> map_sum id (\<lambda>response. e_path (r_endpoint response))
        (executeTool okTransport
          (generateMCPTools [plainEndpoint ''/first'' ''GET'' ''get-a'',
                             plainEndpoint ''/second'' ''GET'' ''get_a'']) ''get_a'' noOptions)
       = Inr ''/first''"
  by (simp add: name_first name_second noskip findTool_def executeTool_def executeEndpoint_def
      buildConfig_def buildUrl_def noOptions_def okTransport_def echo_def)
    (simp add: plainEndpoint_def)

text \<open>
  C3, amended: when two endpoints of the catalog that are not skipped normalize to the
  same tool name, and no endpoint before the earlier of the two yields that name, then
  lookup by the name resolves to the earlier one, and \<open>executeTool\<close> executes it.
\<close>

theorem lookup_first_wins:
  assumes "generateToolName earlier = generateToolName later"
    and "\<not> shouldSkipEndpoint earlier" and "\<not> shouldSkipEndpoint later"
    and "\<forall>e \<in> set pre. shouldSkipEndpoint e \<or> generateToolName e \<noteq> generateToolName earlier"
  shows "map_option endpoint
           (findTool (generateMCPTools (pre @ earlier # mid @ later # post)) (generateToolName later))
           = Some earlier
         \<and> executeTool request (generateMCPTools (pre @ earlier # mid @ later # post))
               (generateToolName later) args
             = executeEndpoint request earlier args"
proof -
  let ?n = "generateToolName earlier"
  have none: "List.find (\<lambda>t. toolName t = ?n) (generateMCPTools pre) = None"
    using assms(4) by (rule findTool_skips)
  have "findTool (generateMCPTools (pre @ earlier # mid @ later # post)) ?n
          = List.find (\<lambda>t. toolName t = ?n) (generateMCPTools (earlier # mid @ later # post))"
    unfolding findTool_def generateMCPTools_append using none by (rule find_append_none)
  also have "\<dots> = Some \<lparr>toolName = generateToolName earlier,
                         description = generateToolDescription earlier,
                         inputSchema = generateInputSchema earlier, endpoint = earlier\<rparr>"
    using assms(2) by simp
  finally show ?thesis using assms(1) by (simp add: executeTool_def)
qed

theorem lookup_first_wins_witness:
  "generateToolName (plainEndpoint ''/first'' ''GET'' ''get-a'')
     = generateToolName (plainEndpoint ''/second'' ''GET'' ''get_a'')
   \<and> \<not> shouldSkipEndpoint (plainEndpoint ''/first'' ''GET'' ''get-a'')
   \<and> \<not> shouldSkipEndpoint (plainEndpoint ''/second'' ''GET'' ''get_a'')
   \<and> map_option endpoint
     (findTool (generateMCPTools ([] @ plainEndpoint ''/first'' ''GET'' ''get-a'' # []
                  @ plainEndpoint ''/second'' ''GET'' ''get_a'' # []))
        (generateToolName (plainEndpoint ''/second'' ''GET'' ''get_a'')))
     = Some (plainEndpoint ''/first'' ''GET'' ''get-a'')
   \<and> executeTool okTransport
        (generateMCPTools ([] @ plainEndpoint ''/first'' ''GET'' ''get-a'' # []
                  @ plainEndpoint ''/second'' ''GET'' ''get_a'' # []))
        (generateToolName (plainEndpoint ''/second'' ''GET'' ''get_a'')) noOptions
     = executeEndpoint okTransport (plainEndpoint ''/first'' ''GET'' ''get-a'') noOptions"
  using lookup_first_wins[where earlier = "plainEndpoint ''/first'' ''GET'' ''get-a''"
      and later = "plainEndpoint ''/second'' ''GET'' ''get_a''" and pre = "[]" and mid = "[]"
      and post = "[]" and request = okTransport and args = noOptions]
  by (simp add: name_first name_second noskip)

subsection \<open>C4: the number of tools\<close>

text \<open>
  C4 says that for every valid OpenAPI document the number of tools equals the number
  of (path, HTTP method) pairs whose method is neither OPTIONS nor HEAD, and that no
  other key of a path item contributes a tool. The enumerator does not ask whether a
  key is an HTTP method: it takes every key other than \<open>parameters\<close> whose value is an
  object or an array. A path item with one \<open>get\<close> operation and a \<open>servers\<close> array
  gives two tools, the second with the method \<open>SERVERS\<close>. And a document whose one
  operation has the extension field \<open>x-internal: true\<close> among its responses gives no
  tools at all: building the list throws a \<open>TypeError\<close>.
\<close>

theorem tool_count_counterexample:
  "methodKeysHoldOperations serversDocument
   \<and> map_sum id length (availableTools serversDocument) = Inr 2
   \<and> length (specToolPairs serversDocument) = 1
   \<and> map_sum id (map (\<lambda>t. ep_method (endpoint t))) (availableTools serversDocument)
       = Inr [''GET'', ''SERVERS'']
   \<and> methodKeysHoldOperations extensionDocument
   \<and> onlyMethodKeysHoldObjects extensionDocument
   \<and> availableTools extensionDocument = Inl TypeError
   \<and> length (specToolPairs extensionDocument) = 1"
proof -
  have tools: "availableTools serversDocument
                 = Inr (generateMCPTools [makeEndpoint ''/widgets'' ''get'' getOperation,
                                          makeEndpoint ''/widgets'' ''servers'' emptyOperation])"
    by (simp add: availableTools_def servers_endpoints)
  have count: "map_sum id length (availableTools serversDocument) = Inr 2"
    unfolding tools by (simp add: skip_makeEndpoint methods_tables)
  have methods: "map_sum id (map (\<lambda>t. ep_method (endpoint t))) (availableTools serversDocument)
                   = Inr [''GET'', ''SERVERS'']"
    unfolding tools by (simp add: skip_makeEndpoint method_makeEndpoint methods_tables)
  have throws: "availableTools extensionDocument = Inl TypeError"
    by (simp add: availableTools_def extension_throws)
  have shape: "methodKeysHoldOperations serversDocument"
    "methodKeysHoldOperations extensionDocument" "onlyMethodKeysHoldObjects extensionDocument"
    by (simp_all add: serversDocument_def extensionDocument_def methodKeysHoldOperations_def
        onlyMethodKeysHoldObjects_def allEntries_def methods_tables parameters_not_method)
  have pairs: "length (specToolPairs serversDocument) = 1"
    "length (specToolPairs extensionDocument) = 1"
    by (simp_all add: serversDocument_def extensionDocument_def specToolPairs_def
        countedMethod_def methods_tables parameters_not_method)
  show ?thesis using count methods throws shape pairs by simp
qed

text \<open>
  C4, amended: for every document in which each method field of a path item holds an
  operation object, no field other than the method fields and \<open>parameters\<close> holds an
  object or an array, and every entry of the \<open>responses\<close> of every operation is an
  object, the tool list is built, and the number of tools equals the number of
  (path, HTTP method) pairs whose method is neither OPTIONS nor HEAD.
\<close>

theorem tool_count_matches_method_pairs:
  assumes "methodKeysHoldOperations doc" and "onlyMethodKeysHoldObjects doc"
    and "noPrimitiveResponses doc"
  shows "\<exists>tools. availableTools doc = Inr tools \<and> length tools = length (specToolPairs doc)"
proof -
  let ?ps = "case doc_paths doc of None \<Rightarrow> [] | Some ps \<Rightarrow> ps"
  have "\<exists>eps. pathsEndpoints ?ps = Inr eps
          \<and> length (generateMCPTools eps) = length (specPathPairs ?ps)"
    using assms
    by (intro paths_count)
      (simp_all add: methodKeysHoldOperations_def onlyMethodKeysHoldObjects_def
        noPrimitiveResponses_def allEntries_def)
  then show ?thesis
    by (auto simp: availableTools_def getAllEndpoints_def specToolPairs_def)
qed

theorem tool_count_matches_method_pairs_witness:
  "methodKeysHoldOperations methodsDocument \<and> onlyMethodKeysHoldObjects methodsDocument
   \<and> noPrimitiveResponses methodsDocument
   \<and> (\<exists>tools. availableTools methodsDocument = Inr tools
          \<and> length tools = length (specToolPairs methodsDocument))
   \<and> length (specToolPairs methodsDocument) = 2"
  using tool_count_matches_method_pairs[of methodsDocument]
  by (simp add: methodsDocument_def methodKeysHoldOperations_def onlyMethodKeysHoldObjects_def
      noPrimitiveResponses_def responsesAreObjects_def responsesOf_def getOperation_def
      emptyOperation_def allEntries_def specToolPairs_def countedMethod_def methods_tables
      parameters_not_method)

subsection \<open>C5: when a refresh is made\<close>




subsection \<open>C6: the tool name\<close>

text \<open>
  C6 says that the tool name is a function of the operation id and that the
  normalization is idempotent. For every endpoint that the enumerator builds, the tool
  name is the normalization of its operation id; normalizing a normalized string
  changes nothing, for every string; and so normalizing a tool name gives it back.
\<close>

theorem toolName_deterministic_idempotent:
  "generateToolName (makeEndpoint path method op)
     = normalizeName (ep_operationId (makeEndpoint path method op))
   \<and> normalizeName (normalizeName s) = normalizeName s
   \<and> normalizeName (generateToolName ep) = generateToolName ep"
proof -
  have "generateToolName (makeEndpoint path method op)
          = normalizeName (ep_operationId (makeEndpoint path method op))"
    using makeEndpoint_operationId[where path = path and op = op] by (simp add: generateToolName_def)
  moreover have "normalizeName (generateToolName ep) = generateToolName ep"
    using generateToolName_normalized[of ep] normalizeName_idempotent by auto
  ultimately show ?thesis using normalizeName_idempotent by simp
qed

theorem toolName_deterministic_idempotent_witness:
  "normalizeName (normalizeName ''Get-/Accounts__{ID}_'') = ''get_accounts_id''
   \<and> ep_operationId (makeEndpoint ''/widgets/{id}'' ''get'' emptyOperation) = ''get__widgets__id_''
   \<and> generateToolName (makeEndpoint ''/widgets/{id}'' ''get'' emptyOperation) = ''get_widgets_id''"
  using toolName_deterministic_idempotent[of "''/widgets/{id}''" "''get''" emptyOperation
      "''Get-/Accounts__{ID}_''" widgetEndpoint]
  by (simp add: normalize_example widget_operationId widget_name)

subsection \<open>C7: the required list of the input schema\<close>

text \<open>
  C7 says that for every endpoint descriptor the \<open>required\<close> list of the generated
  input schema, when it is present, is not empty and names only keys of the schema's
  \<open>properties\<close>. The loops of \<open>generateInputSchema\<close> push a required name and assign
  its property in the same turn, but the assignment \<open>properties[param.name] = ...\<close>
  creates no key when the name is \<open>__proto__\<close>: for an endpoint with one required
  query parameter of that name the schema requires \<open>__proto__\<close> and has no
  properties.
\<close>

theorem inputSchema_requires_missing_property:
  "is_required (generateInputSchema protoEndpoint) = Some [''__proto__'']
   \<and> is_properties (generateInputSchema protoEndpoint) ''__proto__'' = None
   \<and> dom (is_properties (generateInputSchema protoEndpoint)) = {}"
  by (simp add: generateInputSchema_def protoEndpoint_def addParameter_def addRequestBody_def
      assignKey_def Let_def)

subsection \<open>C8: a failed refresh\<close>

text \<open>
  C8 says that when the refresh fails, by a network error, a response outside 2xx or a
  malformed body, the stored token and expiry are left as they were and the operation
  fails with an authentication error, with no retry. The body of a 2xx response is not
  examined: a body without \<open>access_token\<close> and \<open>expires_in\<close> overwrites the stored
  token with \<open>undefined\<close> and the expiry with \<open>NaN\<close>, and nothing is thrown.
\<close>

theorem refreshToken_malformed_body_counterexample:
  "refreshToken shopConfig (\<lambda>request. Success (TokenBody None None)) 2000 expiredState
     = (Inr (), \<lparr>token = None, tokenExpiry = Some NaN\<rparr>, [tokenRequest shopConfig])
   \<and> \<lparr>token = None, tokenExpiry = Some NaN\<rparr> \<noteq> expiredState"
  by (simp add: refreshToken_def expiryFor_def expiredState_def)

text \<open>
  C8, amended: when the token request meets a network error or a response outside 2xx,
  or the 2xx response has \<open>null\<close> for its body, the stored token and expiry are left as
  they were and the operation throws the error
  \<open>Authentication failed with ORO Commerce API\<close>, after one request and no retry.
\<close>

theorem refreshToken_failure_keeps_state:
  assumes "post (tokenRequest config) = NetworkError
           \<or> (\<exists>status. post (tokenRequest config) = HttpError status)
           \<or> post (tokenRequest config) = Success NoBody"
  shows "refreshToken config post now st
           = (Inl (Error ''Authentication failed with ORO Commerce API''), st, [tokenRequest config])"
  using assms by (auto simp: refreshToken_def authenticationFailed_def)

theorem refreshToken_failure_keeps_state_witness:
  "refreshToken shopConfig (\<lambda>request. HttpError 401) 2000 expiredState
     = (Inl (Error ''Authentication failed with ORO Commerce API''), expiredState,
        [tokenRequest shopConfig])"
  using refreshToken_failure_keeps_state[of "\<lambda>request. HttpError 401" shopConfig 2000 expiredState]
  by simp

subsection \<open>C9: formatting a list\<close>

text \<open>
  C9 says that for a successful result whose payload is an empty list the formatted
  text reports zero items and has no item preview, and that for a payload of five items
  it previews exactly the first three and says \<open>and 2 more items\<close>. The first part holds,
  and so does the second whenever the three items can be formatted (the two lemmas
  after the theorem). But \<open>formatItem\<close> calls \<open>item.hasOwnProperty\<close> on the item
  itself: for a list of five items whose first item has a field called
  \<open>hasOwnProperty\<close> the call throws a \<open>TypeError\<close>, and \<open>formatResponse\<close> returns no
  text at all.
\<close>

theorem formatResponse_throws_on_shadowing_item:
  "length shadowingItems = 5
   \<and> r_success (listResponse (JArr shadowingItems))
   \<and> payload (r_data (listResponse (JArr shadowingItems))) = JArr shadowingItems
   \<and> formatItem (JObj [(''id'', JNum 1 ''1''), (''hasOwnProperty'', JBool True)]) = Inl TypeError
   \<and> formatResponse (listResponse (JArr shadowingItems)) = Inl TypeError"
  by (simp add: formatResponse_def listResponse_def shadowingItems_def payload_def formatItem_def)

theorem formatResponse_throws_on_shadowing_item_witness:
  "truthy (JObj [(''id'', JNum 1 ''1''), (''hasOwnProperty'', JBool True)])
   \<and> isObjectLike (JObj [(''id'', JNum 1 ''1''), (''hasOwnProperty'', JBool True)])
   \<and> formatResponse (listResponse (JArr shadowingItems)) = Inl TypeError"
  using formatResponse_throws_on_shadowing_item by simp

lemma formatResponse_empty_list:
  assumes "r_success response"
    and "r_data response = JArr [] \<or> getProp (r_data response) ''data'' = JArr []"
  shows "formatResponse response
           = Inr (successPrefix response @ ''0'' @ bsn @ bsn @ ''No data returned'')"
proof -
  have "payload (r_data response) = JArr []" using assms(2) by (rule payload_list)
  then show ?thesis using assms(1) by (simp add: formatResponse_def Let_def showNat_small)
qed

lemma formatResponse_five_items:
  assumes "r_success response"
    and "r_data response = JArr [a, b, c, d, e]
         \<or> getProp (r_data response) ''data'' = JArr [a, b, c, d, e]"
    and "formatItem a = Inr ta" and "formatItem b = Inr tb" and "formatItem c = Inr tc"
  shows "formatResponse response
           = Inr (successPrefix response @ ''5'' @ bsn @ bsn
                    @ ''1. '' @ ta @ bsn @ ''2. '' @ tb @ bsn @ ''3. '' @ tc @ bsn
                    @ ''... and 2 more items'')"
proof -
  have "payload (r_data response) = JArr [a, b, c, d, e]" using assms(2) by (rule payload_list)
  then show ?thesis
    using assms(1,3,4,5) by (simp add: formatResponse_def Let_def showNat_small)
qed

lemma formatResponse_five_items_example:
  "formatResponse (listResponse (JObj [(''data'', JArr fiveItems)]))
     = Inr (successPrefix (listResponse (JObj [(''data'', JArr fiveItems)])) @ ''5'' @ bsn @ bsn
              @ ''1. id: 1, name: Acme, sku: A-1'' @ bsn
              @ ''2. code: x, price: 7'' @ bsn
              @ ''3. plain'' @ bsn
              @ ''... and 2 more items'')"
  using formatResponse_five_items[of "listResponse (JObj [(''data'', JArr fiveItems)])"
      "fiveItems ! 0" "fiveItems ! 1" "fiveItems ! 2" "fiveItems ! 3" "fiveItems ! 4"]
  by (simp add: listResponse_def fiveItems_def formatItem_examples)

subsection \<open>C10: the result envelope\<close>

text \<open>
  C10 says that \<open>executeEndpoint\<close> never throws: for every endpoint, every argument
  map and every behaviour of the transport it returns an envelope that echoes the
  endpoint's path, method and operation id, with every exception turned into a
  failure envelope. The \<open>catch\<close> block does that for an exception of the \<open>try\<close> block
  and for an ordinary rejection of the transport (the lemmas after the theorem), but
  the block can throw itself. When the upstream error body is
  \<open>{"message": {"toString": "overloaded"}}\<close>, building the text
  \<open>`API call failed: ${errorMessage}`\<close> throws a \<open>TypeError\<close>; when the transport
  rejects with \<open>undefined\<close>, reading \<open>error.response\<close> throws. In both cases
  \<open>executeEndpoint\<close> throws and returns no envelope.
\<close>

theorem executeEndpoint_throws_from_catch:
  "executeEndpoint objectMessageTransport (plainEndpoint ''/accounts'' ''GET'' ''listAccounts'')
       noOptions = Inl TypeError
   \<and> executeEndpoint nullishTransport (plainEndpoint ''/accounts'' ''GET'' ''listAccounts'')
       noOptions = Inl TypeError"
  by (simp add: executeEndpoint_def buildConfig_def buildUrl_def noOptions_def
      objectMessageTransport_def nullishTransport_def errorMessage_def)

lemma catchError_envelope: "catchError ep rejected = Inr response \<Longrightarrow> r_endpoint response = echo ep"
  by (cases rejected) (auto split: sum.splits)

lemma executeEndpoint_envelope:
  "executeEndpoint request ep options = Inr response \<Longrightarrow>
     r_endpoint response
       = \<lparr>e_path = ep_path ep, e_method = ep_method ep, e_operationId = ep_operationId ep\<rparr>"
  by (auto simp: executeEndpoint_def echo_def split: sum.splits dest: catchError_envelope)

lemma executeEndpoint_answered:
  "buildConfig ep options = Inr config \<Longrightarrow> request config = Inr answer \<Longrightarrow>
     executeEndpoint request ep options
       = Inr \<lparr>r_success = True, r_data = h_data answer, r_error = None,
              r_statusCode = Some (h_status answer), r_endpoint = echo ep\<rparr>"
  by (simp add: executeEndpoint_def)

lemma executeEndpoint_rejected:
  "buildConfig ep options = Inr config \<Longrightarrow> request config = Inl (Thrown err)
     \<Longrightarrow> toString (errorMessage err) = Inr text \<Longrightarrow>
     executeEndpoint request ep options
       = Inr \<lparr>r_success = False, r_data = JUndefined,
              r_error = Some (''API call failed: '' @ text),
              r_statusCode = (case te_response err of None \<Rightarrow> None | Some r \<Rightarrow> er_status r),
              r_endpoint = echo ep\<rparr>"
  by (simp add: executeEndpoint_def)

lemma executeEndpoint_conversion_caught:
  "buildConfig ep options = Inl e \<Longrightarrow>
     executeEndpoint request ep options
       = Inr \<lparr>r_success = False, r_data = JUndefined,
              r_error = Some ''API call failed: Cannot convert object to primitive value'',
              r_statusCode = None, r_endpoint = echo ep\<rparr>"
  by (simp add: executeEndpoint_def conversionError_def errorMessage_def)

lemma executeEndpoint_examples:
  "map_sum id r_error (executeEndpoint failingTransport
       (plainEndpoint ''/accounts/{id}'' ''GET'' ''getAccount'') idParams)
     = Inr (Some ''API call failed: Not Found'')"
  "map_sum id r_statusCode (executeEndpoint failingTransport
       (plainEndpoint ''/accounts/{id}'' ''GET'' ''getAccount'') idParams) = Inr (Some 404)"
  "map_sum id r_error (executeEndpoint offlineTransport
       (plainEndpoint ''/accounts/{id}'' ''GET'' ''getAccount'') idParams)
     = Inr (Some ''API call failed: Network Error'')"
  "map_sum id r_error (executeEndpoint okTransport
       (plainEndpoint ''/accounts/{id}'' ''GET'' ''getAccount'') objectParams)
     = Inr (Some ''API call failed: Cannot convert object to primitive value'')"
  by (simp_all add: executeEndpoint_def buildConfig_def buildUrl_def idParams_def objectParams_def
      jsReplace_def plainEndpoint_def failingTransport_def offlineTransport_def okTransport_def
      errorMessage_def conversionError_def)

end
